theory Spec2Isabelle
  imports Complex_Main
begin

section \<open>The C type double\<close>

text \<open>
  The values of a C \<^verbatim>\<open>double\<close>: the finite numbers, the negative zero, the two
  infinities and the not-a-number. \<open>Fin 0\<close> is the positive zero. The special values
  follow IEEE 754 (an infinity minus itself, zero times an infinity and zero over zero
  are NaN, a non-zero number over a zero is an infinity, every comparison with a NaN is
  false). On finite values the arithmetic is the exact one of the reals: rounding,
  overflow and underflow are not modelled. The properties below are therefore stated
  through these operations and the comparisons of doubles, and hold for every double.
\<close>

datatype double = Fin real | NZero | PInf | NInf | NaN

fun isnan :: "double \<Rightarrow> bool" where
  "isnan NaN = True"
| "isnan _ = False"

fun isinf :: "double \<Rightarrow> bool" where
  "isinf PInf = True"
| "isinf NInf = True"
| "isinf _ = False"

fun isfin :: "double \<Rightarrow> bool" where
  "isfin (Fin x) = True"
| "isfin NZero = True"
| "isfin _ = False"

text \<open>The number a finite double stands for (0 for the others, where it is not used).\<close>

fun val :: "double \<Rightarrow> real" where
  "val (Fin x) = x"
| "val _ = 0"

fun signbit :: "double \<Rightarrow> bool" where
  "signbit (Fin x) = (x < 0)"
| "signbit NZero = True"
| "signbit NInf = True"
| "signbit _ = False"

definition iszero :: "double \<Rightarrow> bool" where
  "iszero a = (isfin a \<and> val a = 0)"

text \<open>A zero and an infinity of a given sign.\<close>

definition szero :: "bool \<Rightarrow> double" where
  "szero neg = (if neg then NZero else Fin 0)"

definition sinf :: "bool \<Rightarrow> double" where
  "sinf neg = (if neg then NInf else PInf)"

text \<open>Unary minus.\<close>

fun dneg :: "double \<Rightarrow> double" where
  "dneg (Fin x) = (if x = 0 then NZero else Fin (- x))"
| "dneg NZero = Fin 0"
| "dneg PInf = NInf"
| "dneg NInf = PInf"
| "dneg NaN = NaN"

text \<open>\<open>a + b\<close>: a sum of finite numbers that is zero is the positive zero, unless both are
  the negative zero (rounding to nearest).\<close>

definition dadd :: "double \<Rightarrow> double \<Rightarrow> double" where
  "dadd a b =
     (if isnan a \<or> isnan b then NaN
      else if isinf a then (if isinf b \<and> a \<noteq> b then NaN else a)
      else if isinf b then b
      else if a = NZero \<and> b = NZero then NZero
      else Fin (val a + val b))"

text \<open>\<open>a - b\<close> is \<open>a + (-b)\<close>.\<close>

definition dsub :: "double \<Rightarrow> double \<Rightarrow> double" where
  "dsub a b = dadd a (dneg b)"

text \<open>\<open>a * b\<close>: the sign of the result is the exclusive or of the signs.\<close>

definition dmul :: "double \<Rightarrow> double \<Rightarrow> double" where
  "dmul a b =
     (if isnan a \<or> isnan b then NaN
      else if (isinf a \<and> iszero b) \<or> (iszero a \<and> isinf b) then NaN
      else if isinf a \<or> isinf b then sinf (signbit a \<noteq> signbit b)
      else if val a * val b = 0 then szero (signbit a \<noteq> signbit b)
      else Fin (val a * val b))"

text \<open>\<open>a / b\<close>.\<close>

definition ddiv :: "double \<Rightarrow> double \<Rightarrow> double" where
  "ddiv a b =
     (if isnan a \<or> isnan b then NaN
      else if (isinf a \<and> isinf b) \<or> (iszero a \<and> iszero b) then NaN
      else if isinf a \<or> iszero b then sinf (signbit a \<noteq> signbit b)
      else if isinf b \<or> iszero a then szero (signbit a \<noteq> signbit b)
      else Fin (val a / val b))"

text \<open>\<^verbatim>\<open>sqrt\<close> of math.h.\<close>

fun dsqrt :: "double \<Rightarrow> double" where
  "dsqrt (Fin x) = (if x < 0 then NaN else Fin (sqrt x))"
| "dsqrt NZero = NZero"
| "dsqrt PInf = PInf"
| "dsqrt NInf = NaN"
| "dsqrt NaN = NaN"

text \<open>The comparisons \<^verbatim>\<open><\<close>, \<^verbatim>\<open><=\<close>, \<^verbatim>\<open>==\<close>, \<^verbatim>\<open>>\<close> and \<^verbatim>\<open>>=\<close>: false when an operand is NaN;
  the two zeros are equal.\<close>

definition dlt :: "double \<Rightarrow> double \<Rightarrow> bool" where
  "dlt a b =
     (if isnan a \<or> isnan b then False
      else if a = PInf \<or> b = NInf then False
      else if a = NInf \<or> b = PInf then True
      else val a < val b)"

definition deq :: "double \<Rightarrow> double \<Rightarrow> bool" where
  "deq a b =
     (if isnan a \<or> isnan b then False
      else if isinf a \<or> isinf b then a = b
      else val a = val b)"

definition dle :: "double \<Rightarrow> double \<Rightarrow> bool" where
  "dle a b = (dlt a b \<or> deq a b)"

definition dgt :: "double \<Rightarrow> double \<Rightarrow> bool" where
  "dgt a b = dlt b a"

definition dge :: "double \<Rightarrow> double \<Rightarrow> bool" where
  "dge a b = dle b a"

text \<open>\<^verbatim>\<open>fmax\<close> and \<^verbatim>\<open>fmin\<close> of math.h: when one argument is NaN the other is returned.
  Of two zeros of different sign the first is returned (C leaves the choice open).\<close>

definition fmax :: "double \<Rightarrow> double \<Rightarrow> double" where
  "fmax x y = (if dge x y \<or> isnan y then x else y)"

definition fmin :: "double \<Rightarrow> double \<Rightarrow> double" where
  "fmin x y = (if dle x y \<or> isnan y then x else y)"

text \<open>The macro \<^verbatim>\<open>INFINITY\<close> of math.h.\<close>

abbreviation INFINITY :: double where
  "INFINITY \<equiv> PInf"

section \<open>Vectors (v2d/vector.h)\<close>

text \<open>
  Modelled from the spec: the header v2d/vector.h (the type \<^verbatim>\<open>v2d_vec_t\<close> with its
  operators, \<^verbatim>\<open>v2d_vec\<close>, \<^verbatim>\<open>v2dvx\<close>, \<^verbatim>\<open>v2dvy\<close>, \<^verbatim>\<open>v2d_vec_a\<close>, \<^verbatim>\<open>v2d_vec_mag2\<close>, \<^verbatim>\<open>v2d_vec_mag\<close>
  and \<^verbatim>\<open>v2d_vec_dot\<close>) is not part of the sources. The specification lists the contract:
  addition, subtraction and scalar multiplication of 2D vectors, the dot product, the
  squared magnitude and the magnitude, the test for equality with zero, and the
  accessors of the two components, readable and writable in place.
\<close>

record v2d_vec_t =
  v2dvx :: double
  v2dvy :: double

definition v2d_vec :: "double \<Rightarrow> double \<Rightarrow> v2d_vec_t" where
  "v2d_vec x y = \<lparr>v2dvx = x, v2dvy = y\<rparr>"

text \<open>\<^verbatim>\<open>a + b\<close>, \<^verbatim>\<open>a - b\<close> and \<^verbatim>\<open>a * s\<close> on vectors.\<close>

definition vadd :: "v2d_vec_t \<Rightarrow> v2d_vec_t \<Rightarrow> v2d_vec_t" where
  "vadd a b = v2d_vec (dadd (v2dvx a) (v2dvx b)) (dadd (v2dvy a) (v2dvy b))"

definition vsub :: "v2d_vec_t \<Rightarrow> v2d_vec_t \<Rightarrow> v2d_vec_t" where
  "vsub a b = v2d_vec (dsub (v2dvx a) (v2dvx b)) (dsub (v2dvy a) (v2dvy b))"

definition vscale :: "v2d_vec_t \<Rightarrow> double \<Rightarrow> v2d_vec_t" where
  "vscale a s = v2d_vec (dmul (v2dvx a) s) (dmul (v2dvy a) s)"

text \<open>\<^verbatim>\<open>a == 0\<close> on a vector.\<close>

definition vec_is_zero :: "v2d_vec_t \<Rightarrow> bool" where
  "vec_is_zero a = (deq (v2dvx a) (Fin 0) \<and> deq (v2dvy a) (Fin 0))"

definition v2d_vec_dot :: "v2d_vec_t \<Rightarrow> v2d_vec_t \<Rightarrow> double" where
  "v2d_vec_dot a b = dadd (dmul (v2dvx a) (v2dvx b)) (dmul (v2dvy a) (v2dvy b))"

definition v2d_vec_mag2 :: "v2d_vec_t \<Rightarrow> double" where
  "v2d_vec_mag2 a = v2d_vec_dot a a"

definition v2d_vec_mag :: "v2d_vec_t \<Rightarrow> double" where
  "v2d_vec_mag a = dsqrt (v2d_vec_mag2 a)"

text \<open>\<^verbatim>\<open>v2d_vec_a(v)[i]\<close>, read and written: the components of a vector as an array of
  two doubles. The only indices the code uses are 0 and 1.\<close>

definition vec_a_get :: "v2d_vec_t \<Rightarrow> nat \<Rightarrow> double" where
  "vec_a_get v i = (if i = 0 then v2dvx v else v2dvy v)"

definition vec_a_set :: "v2d_vec_t \<Rightarrow> nat \<Rightarrow> double \<Rightarrow> v2d_vec_t" where
  "vec_a_set v i d = (if i = 0 then v\<lparr>v2dvx := d\<rparr> else v\<lparr>v2dvy := d\<rparr>)"

section \<open>Shapes (v2d/collide.h)\<close>

text \<open>
  Modelled from the spec: the header v2d/collide.h with the types of the shapes is not
  part of the sources. The fields are the ones collide.c reads: \<^verbatim>\<open>pos\<close> and \<^verbatim>\<open>rad\<close> of a
  circle, \<^verbatim>\<open>pos\<close> and \<^verbatim>\<open>dim\<close> of a rect, \<^verbatim>\<open>pos\<close> and \<^verbatim>\<open>dir\<close> of a ray.
\<close>

record v2d_circle_t =
  circle_pos :: v2d_vec_t
  circle_rad :: double

record v2d_rect_t =
  rect_pos :: v2d_vec_t
  rect_dim :: v2d_vec_t

record v2d_ray_t =
  ray_pos :: v2d_vec_t
  ray_dir :: v2d_vec_t

section \<open>collide.c\<close>

subsection \<open>Clamping\<close>

text \<open>\<^verbatim>\<open>_clamp\<close>: clamp a scalar to between two others.\<close>

definition clamp :: "double \<Rightarrow> double \<Rightarrow> double \<Rightarrow> double" where
  "clamp a mn mx =
     (if dlt mn mx then fmax mn (fmin mx a)
      else fmax mx (fmin mn a))"

text \<open>\<^verbatim>\<open>_clampv\<close>: clamp a vector to between two others.\<close>

definition clampv :: "v2d_vec_t \<Rightarrow> v2d_vec_t \<Rightarrow> v2d_vec_t \<Rightarrow> v2d_vec_t" where
  "clampv a mn mx =
     v2d_vec (clamp (v2dvx a) (v2dvx mn) (v2dvx mx))
             (clamp (v2dvy a) (v2dvy mn) (v2dvy mx))"

subsection \<open>Normalising a rect\<close>

text \<open>The body of the loop of \<^verbatim>\<open>_rect_fix\<close> for the index \<open>i\<close>: \<open>p\<close> and \<open>d\<close> point into the
  position and the dimensions of the rect (a copy: the rect is passed by value).\<close>

definition rect_fix_body :: "nat \<Rightarrow> v2d_rect_t \<Rightarrow> v2d_rect_t" where
  "rect_fix_body i r =
     (if dlt (vec_a_get (rect_dim r) i) (Fin 0) then
        let d' = dneg (vec_a_get (rect_dim r) i);
            p' = dsub (vec_a_get (rect_pos r) i) d'
        in r\<lparr>rect_pos := vec_a_set (rect_pos r) i p',
             rect_dim := vec_a_set (rect_dim r) i d'\<rparr>
      else r)"

text \<open>\<^verbatim>\<open>for (int i = 0; i < 2; i++)\<close>, from the index \<open>i\<close> on.\<close>

function rect_fix_loop :: "nat \<Rightarrow> v2d_rect_t \<Rightarrow> v2d_rect_t" where
  "rect_fix_loop i r = (if i < 2 then rect_fix_loop (Suc i) (rect_fix_body i r) else r)"
  by pat_completeness auto
termination
  by (relation "measure (\<lambda>(i, r). 2 - i)") auto

text \<open>\<^verbatim>\<open>_rect_fix\<close>: flip a rect's dimensions if they are negative.\<close>

definition rect_fix :: "v2d_rect_t \<Rightarrow> v2d_rect_t" where
  "rect_fix r = rect_fix_loop 0 r"

subsection \<open>Collision tests\<close>

definition v2d_collide_point_circle :: "v2d_vec_t \<Rightarrow> v2d_circle_t \<Rightarrow> bool" where
  "v2d_collide_point_circle p c =
     dlt (v2d_vec_mag2 (vsub (circle_pos c) p)) (dmul (circle_rad c) (circle_rad c))"

definition v2d_collide_point_rect :: "v2d_vec_t \<Rightarrow> v2d_rect_t \<Rightarrow> bool" where
  "v2d_collide_point_rect p b0 =
     (let b = rect_fix b0;
          mn = rect_pos b;
          mx = vadd (rect_pos b) (rect_dim b)
      in if dlt (v2dvx p) (v2dvx mn) then False
         else if dgt (v2dvx p) (v2dvx mx) then False
         else if dlt (v2dvy p) (v2dvy mn) then False
         else if dgt (v2dvy p) (v2dvy mx) then False
         else True)"

definition v2d_collide_circle_circle :: "v2d_circle_t \<Rightarrow> v2d_circle_t \<Rightarrow> bool" where
  "v2d_collide_circle_circle a b =
     (let d = dadd (circle_rad a) (circle_rad b)
      in dlt (v2d_vec_mag2 (vsub (circle_pos a) (circle_pos b))) (dmul d d))"

definition v2d_collide_rect_rect :: "v2d_rect_t \<Rightarrow> v2d_rect_t \<Rightarrow> bool" where
  "v2d_collide_rect_rect a0 b0 =
     (let a = rect_fix a0;
          b = rect_fix b0;
          amin = rect_pos a; amax = vadd (rect_pos a) (rect_dim a);
          bmin = rect_pos b; bmax = vadd (rect_pos b) (rect_dim b)
      in if dlt (v2dvx amax) (v2dvx bmin) then False
         else if dlt (v2dvx bmax) (v2dvx amin) then False
         else if dlt (v2dvy amax) (v2dvy bmin) then False
         else if dlt (v2dvy bmax) (v2dvy amin) then False
         else True)"

definition v2d_collide_circle_rect :: "v2d_circle_t \<Rightarrow> v2d_rect_t \<Rightarrow> bool" where
  "v2d_collide_circle_rect a b =
     (let mn = rect_pos b;
          mx = vadd (rect_pos b) (rect_dim b)
      in dlt (v2d_vec_mag2 (vsub (clampv (circle_pos a) mn mx) (circle_pos a)))
             (dmul (circle_rad a) (circle_rad a)))"

subsection \<open>Raycasts\<close>

text \<open>The last two lines of both raycasts: \<^verbatim>\<open>if (0 <= h && h <= 1) return h; return INFINITY;\<close>\<close>

definition in_ray :: "double \<Rightarrow> double" where
  "in_ray h = (if dle (Fin 0) h \<and> dle h (Fin 1) then h else INFINITY)"

text \<open>\<^verbatim>\<open>v2d_raycast_circle\<close> after its three shortcuts, up to the computation of \<open>h\<close>:
  \<open>None\<close> where the code returns \<^verbatim>\<open>INFINITY\<close> for a distance that is not less than the
  squared radius, the candidate \<open>h\<close> otherwise.\<close>

definition raycast_circle_h :: "v2d_ray_t \<Rightarrow> v2d_circle_t \<Rightarrow> double option" where
  "raycast_circle_h r c =
     (let cpos = vsub (circle_pos c) (ray_pos r);
          rmag = v2d_vec_mag (ray_dir r);
          rimag = ddiv (Fin 1) rmag;
          proj0 = dmul (v2d_vec_dot cpos (ray_dir r)) rimag;
          proj = (if dlt proj0 (Fin 0) then Fin 0
                  else if dgt proj0 rmag then rmag
                  else proj0);
          distance = v2d_vec_mag2 (vsub cpos (vscale (vscale (ray_dir r) proj) rimag))
      in if dge distance (dmul (circle_rad c) (circle_rad c)) then None
         else Some (dmul (dsub proj (dsqrt (dsub (dmul (circle_rad c) (circle_rad c)) distance)))
                         rimag))"

definition v2d_raycast_circle :: "v2d_ray_t \<Rightarrow> v2d_circle_t \<Rightarrow> double" where
  "v2d_raycast_circle r c =
     (if v2d_collide_point_circle (ray_pos r) c then Fin 0
      else if vec_is_zero (ray_dir r) then INFINITY
      else if v2d_collide_point_circle (vadd (ray_pos r) (ray_dir r)) c then Fin 0
      else case raycast_circle_h r c of
             None \<Rightarrow> INFINITY
           | Some h \<Rightarrow> in_ray h)"

text \<open>The two values of \<open>\<lambda>\<close> at which a ray crosses the two planes of a slab: the lines
  \<^verbatim>\<open>xcoef = 1/v2dvx(r.dir); hx1 = (v2dvx(bmin) - v2dvx(r.pos)) * xcoef; hx2 = ...\<close>, and the
  same lines for y.\<close>

definition slab :: "double \<Rightarrow> double \<Rightarrow> double \<Rightarrow> double \<Rightarrow> double \<times> double" where
  "slab bmin bmax rpos rdir =
     (let coef = ddiv (Fin 1) rdir;
          h1 = dmul (dsub bmin rpos) coef;
          h2 = dmul (dsub bmax rpos) coef
      in (h1, h2))"

text \<open>The slab of the x axis and of the y axis for a ray and a rect (normalised first, as
  in \<^verbatim>\<open>v2d_raycast_rect\<close>).\<close>

definition slab_x :: "v2d_ray_t \<Rightarrow> v2d_rect_t \<Rightarrow> double \<times> double" where
  "slab_x r b0 =
     (let b = rect_fix b0;
          bmin = rect_pos b; bmax = vadd (rect_pos b) (rect_dim b)
      in slab (v2dvx bmin) (v2dvx bmax) (v2dvx (ray_pos r)) (v2dvx (ray_dir r)))"

definition slab_y :: "v2d_ray_t \<Rightarrow> v2d_rect_t \<Rightarrow> double \<times> double" where
  "slab_y r b0 =
     (let b = rect_fix b0;
          bmin = rect_pos b; bmax = vadd (rect_pos b) (rect_dim b)
      in slab (v2dvy bmin) (v2dvy bmax) (v2dvy (ray_pos r)) (v2dvy (ray_dir r)))"

text \<open>The end of \<^verbatim>\<open>v2d_raycast_rect\<close>, from the bounds \<open>hmin\<close> and \<open>hmax\<close> of the interval:
  \<^verbatim>\<open>if (hmax < hmin) return INFINITY; double h = hmin < 0 ? hmax : hmin;\<close>, with \<open>None\<close>
  where the code returns \<^verbatim>\<open>INFINITY\<close>.\<close>

definition choose_h :: "double \<Rightarrow> double \<Rightarrow> double option" where
  "choose_h hmin hmax =
     (if dlt hmax hmin then None
      else Some (if dlt hmin (Fin 0) then hmax else hmin))"

text \<open>\<^verbatim>\<open>v2d_raycast_rect\<close> after its three shortcuts, up to the choice of \<open>h\<close>: \<open>None\<close>
  where the code returns \<^verbatim>\<open>INFINITY\<close> for \<^verbatim>\<open>hmax < hmin\<close>, the candidate \<open>h\<close> otherwise.\<close>

definition raycast_rect_h :: "v2d_ray_t \<Rightarrow> v2d_rect_t \<Rightarrow> double option" where
  "raycast_rect_h r b =
     (let (hx1, hx2) = slab_x r b;
          hmax = fmax hx1 hx2;
          hmin = fmin hx1 hx2
      in if dlt hmax hmin then None
         else let (hy1, hy2) = slab_y r b;
                  hmax' = fmin hmax (fmax hy1 hy2);
                  hmin' = fmax hmin (fmin hy1 hy2)
              in choose_h hmin' hmax')"

definition v2d_raycast_rect :: "v2d_ray_t \<Rightarrow> v2d_rect_t \<Rightarrow> double" where
  "v2d_raycast_rect r b =
     (if v2d_collide_point_rect (ray_pos r) b then Fin 0
      else if vec_is_zero (ray_dir r) then INFINITY
      else if v2d_collide_point_rect (vadd (ray_pos r) (ray_dir r)) b then Fin 0
      else case raycast_rect_h r b of
             None \<Rightarrow> INFINITY
           | Some h \<Rightarrow> in_ray h)"

section \<open>Notions used by the specification\<close>

text \<open>The two corners of a rect as \<^verbatim>\<open>v2d_collide_point_rect\<close>, \<^verbatim>\<open>v2d_collide_rect_rect\<close> and
  \<^verbatim>\<open>v2d_raycast_rect\<close> compute them: \<^verbatim>\<open>b = _rect_fix(b); min = b.pos, max = b.pos + b.dim\<close>.\<close>

definition rect_min :: "v2d_rect_t \<Rightarrow> v2d_vec_t" where
  "rect_min b = rect_pos (rect_fix b)"

definition rect_max :: "v2d_rect_t \<Rightarrow> v2d_vec_t" where
  "rect_max b = vadd (rect_pos (rect_fix b)) (rect_dim (rect_fix b))"

text \<open>The normalisation of one axis in the words of the specification: if the extent
  \<open>d\<close> is negative, the origin becomes the origin \<open>p\<close> plus the extent and the extent is
  negated; otherwise both stay. \<open>norm_max\<close> is the normalised origin plus the normalised
  extent, in the arithmetic of doubles.\<close>

definition norm_origin :: "double \<Rightarrow> double \<Rightarrow> double" where
  "norm_origin p d = (if dlt d (Fin 0) then dadd p d else p)"

definition norm_extent :: "double \<Rightarrow> double" where
  "norm_extent d = (if dlt d (Fin 0) then dneg d else d)"

definition norm_max :: "double \<Rightarrow> double \<Rightarrow> double" where
  "norm_max p d = dadd (norm_origin p d) (norm_extent d)"

text \<open>One axis of \<^verbatim>\<open>v2d_collide_circle_rect\<close>: the coordinate \<open>a\<close> of the centre clamped
  between \<open>p\<close> and \<open>p + d\<close>, minus \<open>a\<close>.\<close>

definition axis_gap :: "double \<Rightarrow> double \<Rightarrow> double \<Rightarrow> double" where
  "axis_gap a p d = dsub (clamp a p (dadd p d)) a"

text \<open>What the specification says of the slab of an axis on which the direction of the ray
  is zero: its two bounds are signed infinities, and the lesser and the greater of them
  are the two ends of the whole line, so that the axis constrains nothing.\<close>

definition slab_unconstrained :: "double \<times> double \<Rightarrow> bool" where
  "slab_unconstrained s =
     (isinf (fst s) \<and> isinf (snd s)
      \<and> fmin (fst s) (snd s) = NInf \<and> fmax (fst s) (snd s) = PInf)"

section \<open>Facts of the arithmetic\<close>

lemmas d_defs = dadd_def dsub_def dmul_def ddiv_def dlt_def deq_def dle_def dgt_def dge_def
  fmax_def fmin_def iszero_def szero_def sinf_def

lemmas v_defs = v2d_vec_def vadd_def vsub_def vscale_def vec_is_zero_def v2d_vec_dot_def
  v2d_vec_mag2_def v2d_vec_mag_def vec_a_get_def vec_a_set_def

lemma dneg_dneg: "dneg (dneg a) = a"
  by (cases a) simp_all

lemma dmul_dneg_dneg: "dmul (dneg r) (dneg r) = dmul r r"
  by (cases r) (simp_all add: dmul_def iszero_def szero_def sinf_def)

lemma dlt_dneg: "dlt d (Fin 0) \<Longrightarrow> \<not> dlt (dneg d) (Fin 0)"
  by (cases d) (simp_all add: dlt_def split: if_splits)

lemma dsub_dneg: "dsub p (dneg d) = dadd p d"
  by (simp add: dsub_def dneg_dneg)

text \<open>The guard at the end of the raycasts lets through the values of \<open>[0, 1]\<close> only.\<close>

lemma in_ray_range:
  "in_ray h = INFINITY \<or> (isfin (in_ray h) \<and> 0 \<le> val (in_ray h) \<and> val (in_ray h) \<le> 1)"
  by (cases h) (auto simp add: in_ray_def dle_def dlt_def deq_def)

section \<open>Normalising a rect\<close>

text \<open>The loop runs its body for the index 0, then for the index 1.\<close>

lemma rect_fix_unfold: "rect_fix r = rect_fix_body (Suc 0) (rect_fix_body 0 r)"
  by (simp add: rect_fix_def numeral_2_eq_2)

lemma rect_fix_body_idem: "rect_fix_body i (rect_fix_body i r) = rect_fix_body i r"
  by (simp add: rect_fix_body_def vec_a_get_def vec_a_set_def Let_def dlt_dneg)

lemma rect_fix_body_commute:
  "rect_fix_body 0 (rect_fix_body (Suc 0) r) = rect_fix_body (Suc 0) (rect_fix_body 0 r)"
  by (simp add: rect_fix_body_def vec_a_get_def vec_a_set_def Let_def)

lemma rect_fix_idem: "rect_fix (rect_fix r) = rect_fix r"
  by (simp add: rect_fix_unfold rect_fix_body_commute rect_fix_body_idem)

lemma rect_fix_x:
  "v2dvx (rect_dim (rect_fix r)) =
     (if dlt (v2dvx (rect_dim r)) (Fin 0) then dneg (v2dvx (rect_dim r)) else v2dvx (rect_dim r))"
  "v2dvx (rect_pos (rect_fix r)) =
     (if dlt (v2dvx (rect_dim r)) (Fin 0) then dadd (v2dvx (rect_pos r)) (v2dvx (rect_dim r))
      else v2dvx (rect_pos r))"
  by (simp_all add: rect_fix_unfold rect_fix_body_def vec_a_get_def vec_a_set_def Let_def dsub_dneg)

lemma rect_fix_y:
  "v2dvy (rect_dim (rect_fix r)) =
     (if dlt (v2dvy (rect_dim r)) (Fin 0) then dneg (v2dvy (rect_dim r)) else v2dvy (rect_dim r))"
  "v2dvy (rect_pos (rect_fix r)) =
     (if dlt (v2dvy (rect_dim r)) (Fin 0) then dadd (v2dvy (rect_pos r)) (v2dvy (rect_dim r))
      else v2dvy (rect_pos r))"
  by (simp_all add: rect_fix_unfold rect_fix_body_def vec_a_get_def vec_a_set_def Let_def dsub_dneg)

section \<open>The corners of the normalised rect\<close>

lemma rect_min_norm:
  "v2dvx (rect_min b) = norm_origin (v2dvx (rect_pos b)) (v2dvx (rect_dim b))"
  "v2dvy (rect_min b) = norm_origin (v2dvy (rect_pos b)) (v2dvy (rect_dim b))"
  by (simp_all add: rect_min_def norm_origin_def rect_fix_x rect_fix_y)

lemma rect_max_norm:
  "v2dvx (rect_max b) = norm_max (v2dvx (rect_pos b)) (v2dvx (rect_dim b))"
  "v2dvy (rect_max b) = norm_max (v2dvy (rect_pos b)) (v2dvy (rect_dim b))"
  by (simp_all add: rect_max_def norm_max_def norm_origin_def norm_extent_def vadd_def v2d_vec_def
      rect_fix_x rect_fix_y)

lemma collide_rect_rect_corners:
  "v2d_collide_rect_rect a b =
     (\<not> (dlt (v2dvx (rect_max a)) (v2dvx (rect_min b)) \<or> dlt (v2dvx (rect_max b)) (v2dvx (rect_min a))
         \<or> dlt (v2dvy (rect_max a)) (v2dvy (rect_min b)) \<or> dlt (v2dvy (rect_max b)) (v2dvy (rect_min a))))"
  by (simp add: v2d_collide_rect_rect_def rect_min_def rect_max_def Let_def)


text \<open>The order of the doubles: \<open><\<close> excludes \<open>></\<close>, and \<open><=\<close> excludes \<open>></\<close>.\<close>

lemma dlt_asym: "dlt a b \<Longrightarrow> \<not> dlt b a"
  by (cases a; cases b) (simp_all add: dlt_def)



section \<open>The range of the raycasts\<close>

lemma v2d_raycast_rect_range:
  "v2d_raycast_rect r b = INFINITY \<or>
     (isfin (v2d_raycast_rect r b) \<and> 0 \<le> val (v2d_raycast_rect r b) \<and> val (v2d_raycast_rect r b) \<le> 1)"
  using in_ray_range by (simp add: v2d_raycast_rect_def split: option.split)

lemma v2d_raycast_circle_range:
  "v2d_raycast_circle r c = INFINITY \<or>
     (isfin (v2d_raycast_circle r c) \<and> 0 \<le> val (v2d_raycast_circle r c) \<and> val (v2d_raycast_circle r c) \<le> 1)"
  using in_ray_range by (simp add: v2d_raycast_circle_def split: option.split)

section \<open>The slabs of the ray against a rect\<close>

text \<open>Of two doubles in strict order, the difference is neither NaN nor a zero, and has
  the sign of the order.\<close>

lemma dsub_of_dlt:
  assumes "dlt a b"
  shows "\<not> isnan (dsub a b)" "\<not> iszero (dsub a b)" "signbit (dsub a b)"
    and "\<not> isnan (dsub b a)" "\<not> iszero (dsub b a)" "\<not> signbit (dsub b a)"
  using assms
  by (cases a; cases b; simp add: dlt_def dsub_def dadd_def iszero_def split: if_splits)+

lemma ddiv_one_zero: "deq d (Fin 0) \<Longrightarrow> ddiv (Fin 1) d = sinf (signbit d)"
  by (cases d) (simp_all add: deq_def ddiv_def iszero_def sinf_def)

lemma dmul_sinf: "\<not> isnan x \<Longrightarrow> \<not> iszero x \<Longrightarrow> dmul x (sinf s) = sinf (signbit x \<noteq> s)"
  by (cases x; cases s) (simp_all add: dmul_def iszero_def sinf_def)

lemma slab_zero_between:
  assumes "deq d (Fin 0)" and "dlt lo p" and "dlt p hi"
  shows "slab lo hi p d = (sinf (\<not> signbit d), sinf (signbit d))"
  using dsub_of_dlt(1-3) [OF assms(2)] dsub_of_dlt(4-6) [OF assms(3)]
  by (simp add: slab_def Let_def ddiv_one_zero [OF assms(1)] dmul_sinf)

lemma slab_unconstrained_sinf: "slab_unconstrained (sinf (\<not> s), sinf s)"
  by (cases s) (simp_all add: slab_unconstrained_def sinf_def d_defs)

lemma sinf_ends: "fmin (sinf (\<not> s)) (sinf s) = NInf" "fmax (sinf (\<not> s)) (sinf s) = PInf"
  by (cases s; simp add: sinf_def d_defs)+

text \<open>\<^verbatim>\<open>fmin\<close> and \<^verbatim>\<open>fmax\<close> against an infinity, and their NaN.\<close>

lemma fmin_PInf: "\<not> isnan y \<Longrightarrow> fmin PInf y = y"
  by (cases y) (simp_all add: d_defs)

lemma fmax_NInf: "\<not> isnan y \<Longrightarrow> fmax NInf y = y"
  by (cases y) (simp_all add: d_defs)

lemma fmin_PInf_right: "\<not> isnan x \<Longrightarrow> fmin x PInf = x"
  by (cases x) (simp_all add: d_defs)

lemma fmax_NInf_right: "\<not> isnan x \<Longrightarrow> fmax x NInf = x"
  by (cases x) (simp_all add: d_defs)

lemma isnan_fmax: "isnan (fmax a b) = (isnan a \<and> isnan b)"
  by (cases a; cases b) (simp_all add: d_defs)

lemma isnan_fmin: "isnan (fmin a b) = (isnan a \<and> isnan b)"
  by (cases a; cases b) (simp_all add: d_defs)

lemma slab_x_corners:
  "slab_x r b = slab (norm_origin (v2dvx (rect_pos b)) (v2dvx (rect_dim b)))
                     (norm_max (v2dvx (rect_pos b)) (v2dvx (rect_dim b)))
                     (v2dvx (ray_pos r)) (v2dvx (ray_dir r))"
  using rect_min_norm(1) [of b] rect_max_norm(1) [of b]
  by (simp add: slab_x_def rect_min_def rect_max_def Let_def)

lemma slab_y_corners:
  "slab_y r b = slab (norm_origin (v2dvy (rect_pos b)) (v2dvy (rect_dim b)))
                     (norm_max (v2dvy (rect_pos b)) (v2dvy (rect_dim b)))
                     (v2dvy (ray_pos r)) (v2dvy (ray_dir r))"
  using rect_min_norm(2) [of b] rect_max_norm(2) [of b]
  by (simp add: slab_y_def rect_min_def rect_max_def Let_def)

lemma raycast_rect_h_slabs:
  "raycast_rect_h r b =
     (if dlt (fmax (fst (slab_x r b)) (snd (slab_x r b))) (fmin (fst (slab_x r b)) (snd (slab_x r b)))
      then None
      else choose_h (fmax (fmin (fst (slab_x r b)) (snd (slab_x r b)))
                          (fmin (fst (slab_y r b)) (snd (slab_y r b))))
                    (fmin (fmax (fst (slab_x r b)) (snd (slab_x r b)))
                          (fmax (fst (slab_y r b)) (snd (slab_y r b)))))"
  by (simp add: raycast_rect_h_def Let_def split_beta)

text \<open>When the slab of one axis is the whole line, the candidate is the one of the other
  axis, unless both bounds of that axis are NaN.\<close>

lemma raycast_rect_h_free_x:
  assumes "slab_x r b = (sinf (\<not> s), sinf s)"
    and "\<not> (isnan (fst (slab_y r b)) \<and> isnan (snd (slab_y r b)))"
  shows "raycast_rect_h r b =
           choose_h (fmin (fst (slab_y r b)) (snd (slab_y r b)))
                    (fmax (fst (slab_y r b)) (snd (slab_y r b)))"
  using assms(2)
  by (simp add: raycast_rect_h_slabs assms(1) sinf_ends fmin_PInf fmax_NInf isnan_fmax isnan_fmin
      dlt_def)

lemma raycast_rect_h_free_y:
  assumes "slab_y r b = (sinf (\<not> s), sinf s)"
    and "\<not> (isnan (fst (slab_x r b)) \<and> isnan (snd (slab_x r b)))"
  shows "raycast_rect_h r b =
           choose_h (fmin (fst (slab_x r b)) (snd (slab_x r b)))
                    (fmax (fst (slab_x r b)) (snd (slab_x r b)))"
  using assms(2)
  by (simp add: raycast_rect_h_slabs assms(1) sinf_ends fmin_PInf_right fmax_NInf_right
      isnan_fmax isnan_fmin choose_h_def)

section \<open>The circle against a rect, axis by axis\<close>

lemma circle_rect_gap:
  "v2d_collide_circle_rect a b =
     dlt (dadd (dmul (axis_gap (v2dvx (circle_pos a)) (v2dvx (rect_pos b)) (v2dvx (rect_dim b)))
                     (axis_gap (v2dvx (circle_pos a)) (v2dvx (rect_pos b)) (v2dvx (rect_dim b))))
               (dmul (axis_gap (v2dvy (circle_pos a)) (v2dvy (rect_pos b)) (v2dvy (rect_dim b)))
                     (axis_gap (v2dvy (circle_pos a)) (v2dvy (rect_pos b)) (v2dvy (rect_dim b)))))
         (dmul (circle_rad a) (circle_rad a))"
  by (simp add: v2d_collide_circle_rect_def clampv_def axis_gap_def v_defs Let_def)

lemma rect_fix_norm:
  "v2dvx (rect_pos (rect_fix b)) = norm_origin (v2dvx (rect_pos b)) (v2dvx (rect_dim b))"
  "v2dvx (rect_dim (rect_fix b)) = norm_extent (v2dvx (rect_dim b))"
  "v2dvy (rect_pos (rect_fix b)) = norm_origin (v2dvy (rect_pos b)) (v2dvy (rect_dim b))"
  "v2dvy (rect_dim (rect_fix b)) = norm_extent (v2dvy (rect_dim b))"
  by (simp_all add: norm_origin_def norm_extent_def rect_fix_x rect_fix_y)

text \<open>The clamp takes its two bounds in either order.\<close>

lemma clamp_swap: "dlt q p \<or> q = p \<Longrightarrow> clamp a q p = clamp a p q"
  by (auto simp add: clamp_def dlt_asym)

text \<open>When a negative extent is added to the origin and subtracted again without loss, the
  sum is the origin itself or lies strictly below it.\<close>

lemma roundtrip_order:
  assumes "dlt d (Fin 0)" and "dsub (dadd p d) d = p"
  shows "dlt (dadd p d) p \<or> dadd p d = p"
  using assms
  by (cases p; cases d; simp add: dlt_def dsub_def dadd_def split: if_splits)

lemma axis_gap_norm:
  assumes "dlt d (Fin 0) \<longrightarrow> dsub (dadd p d) d = p"
  shows "axis_gap a (norm_origin p d) (norm_extent d) = axis_gap a p d"
proof (cases "dlt d (Fin 0)")
  case True
  with assms have r: "dsub (dadd p d) d = p" by simp
  have "clamp a (dadd p d) p = clamp a p (dadd p d)"
    by (rule clamp_swap [OF roundtrip_order [OF True r]])
  with True r show ?thesis
    by (simp add: axis_gap_def norm_origin_def norm_extent_def dsub_def [symmetric])
next
  case False
  then show ?thesis by (simp add: norm_origin_def norm_extent_def)
qed

section \<open>The claims of the specification\<close>

text \<open>
  Claim C1: whatever the ray, the circle and the rect, \<^verbatim>\<open>v2d_raycast_circle\<close> and
  \<^verbatim>\<open>v2d_raycast_rect\<close> return either positive infinity or a finite \<open>\<lambda>\<close> with \<open>0 \<le> \<lambda> \<le> 1\<close>;
  past the shortcuts, a candidate \<open>h\<close> that is not in \<open>[0, 1]\<close> is reported as positive
  infinity (it is neither clamped nor returned as it is).
\<close>

theorem raycast_result_range:
  "(v2d_raycast_circle r c = INFINITY \<or>
      (isfin (v2d_raycast_circle r c) \<and> 0 \<le> val (v2d_raycast_circle r c)
       \<and> val (v2d_raycast_circle r c) \<le> 1))
   \<and> (v2d_raycast_rect r b = INFINITY \<or>
      (isfin (v2d_raycast_rect r b) \<and> 0 \<le> val (v2d_raycast_rect r b)
       \<and> val (v2d_raycast_rect r b) \<le> 1))
   \<and> (\<not> v2d_collide_point_circle (ray_pos r) c \<and> \<not> vec_is_zero (ray_dir r)
        \<and> \<not> v2d_collide_point_circle (vadd (ray_pos r) (ray_dir r)) c
        \<and> raycast_circle_h r c = Some h \<and> \<not> (dle (Fin 0) h \<and> dle h (Fin 1))
      \<longrightarrow> v2d_raycast_circle r c = INFINITY)
   \<and> (\<not> v2d_collide_point_rect (ray_pos r) b \<and> \<not> vec_is_zero (ray_dir r)
        \<and> \<not> v2d_collide_point_rect (vadd (ray_pos r) (ray_dir r)) b
        \<and> raycast_rect_h r b = Some h' \<and> \<not> (dle (Fin 0) h' \<and> dle h' (Fin 1))
      \<longrightarrow> v2d_raycast_rect r b = INFINITY)"
proof -
  have c': "\<not> v2d_collide_point_circle (ray_pos r) c \<and> \<not> vec_is_zero (ray_dir r)
        \<and> \<not> v2d_collide_point_circle (vadd (ray_pos r) (ray_dir r)) c
        \<and> raycast_circle_h r c = Some h \<and> \<not> (dle (Fin 0) h \<and> dle h (Fin 1))
      \<longrightarrow> v2d_raycast_circle r c = INFINITY"
    by (simp add: v2d_raycast_circle_def in_ray_def)
  have b': "\<not> v2d_collide_point_rect (ray_pos r) b \<and> \<not> vec_is_zero (ray_dir r)
        \<and> \<not> v2d_collide_point_rect (vadd (ray_pos r) (ray_dir r)) b
        \<and> raycast_rect_h r b = Some h' \<and> \<not> (dle (Fin 0) h' \<and> dle h' (Fin 1))
      \<longrightarrow> v2d_raycast_rect r b = INFINITY"
    by (simp add: v2d_raycast_rect_def in_ray_def)
  from v2d_raycast_circle_range [of r c] v2d_raycast_rect_range [of r b] c' b'
  show ?thesis by blast
qed

text \<open>At the ray from \<open>(-5, 1/2)\<close> along \<open>(1, 0)\<close>: the candidate against the unit rect is 5,
  the candidate against a circle of radius NaN is NaN, and both raycasts return positive
  infinity.\<close>

theorem raycast_result_range_witness:
  "\<not> v2d_collide_point_circle
        (ray_pos \<lparr>ray_pos = v2d_vec (Fin (-5)) (Fin (1/2)), ray_dir = v2d_vec (Fin 1) (Fin 0)\<rparr>)
        \<lparr>circle_pos = v2d_vec (Fin 0) (Fin 0), circle_rad = NaN\<rparr>
   \<and> \<not> vec_is_zero (ray_dir \<lparr>ray_pos = v2d_vec (Fin (-5)) (Fin (1/2)), ray_dir = v2d_vec (Fin 1) (Fin 0)\<rparr>)
   \<and> raycast_circle_h \<lparr>ray_pos = v2d_vec (Fin (-5)) (Fin (1/2)), ray_dir = v2d_vec (Fin 1) (Fin 0)\<rparr>
        \<lparr>circle_pos = v2d_vec (Fin 0) (Fin 0), circle_rad = NaN\<rparr> = Some NaN
   \<and> v2d_raycast_circle \<lparr>ray_pos = v2d_vec (Fin (-5)) (Fin (1/2)), ray_dir = v2d_vec (Fin 1) (Fin 0)\<rparr>
        \<lparr>circle_pos = v2d_vec (Fin 0) (Fin 0), circle_rad = NaN\<rparr> = INFINITY
   \<and> \<not> v2d_collide_point_rect
        (ray_pos \<lparr>ray_pos = v2d_vec (Fin (-5)) (Fin (1/2)), ray_dir = v2d_vec (Fin 1) (Fin 0)\<rparr>)
        \<lparr>rect_pos = v2d_vec (Fin 0) (Fin 0), rect_dim = v2d_vec (Fin 1) (Fin 1)\<rparr>
   \<and> raycast_rect_h \<lparr>ray_pos = v2d_vec (Fin (-5)) (Fin (1/2)), ray_dir = v2d_vec (Fin 1) (Fin 0)\<rparr>
        \<lparr>rect_pos = v2d_vec (Fin 0) (Fin 0), rect_dim = v2d_vec (Fin 1) (Fin 1)\<rparr> = Some (Fin 5)
   \<and> v2d_raycast_rect \<lparr>ray_pos = v2d_vec (Fin (-5)) (Fin (1/2)), ray_dir = v2d_vec (Fin 1) (Fin 0)\<rparr>
        \<lparr>rect_pos = v2d_vec (Fin 0) (Fin 0), rect_dim = v2d_vec (Fin 1) (Fin 1)\<rparr> = INFINITY"
proof -
  let ?r = "\<lparr>ray_pos = v2d_vec (Fin (-5)) (Fin (1/2)), ray_dir = v2d_vec (Fin 1) (Fin 0)\<rparr>"
  let ?c = "\<lparr>circle_pos = v2d_vec (Fin 0) (Fin 0), circle_rad = NaN\<rparr>"
  let ?b = "\<lparr>rect_pos = v2d_vec (Fin 0) (Fin 0), rect_dim = v2d_vec (Fin 1) (Fin 1)\<rparr>"
  have c1: "\<not> v2d_collide_point_circle (ray_pos ?r) ?c"
    and c2: "\<not> v2d_collide_point_circle (vadd (ray_pos ?r) (ray_dir ?r)) ?c"
    by (simp_all add: v2d_collide_point_circle_def d_defs v_defs)
  have z: "\<not> vec_is_zero (ray_dir ?r)"
    by (simp add: d_defs v_defs)
  have c3: "raycast_circle_h ?r ?c = Some NaN"
    by (simp add: raycast_circle_h_def Let_def d_defs v_defs)
  have b1: "\<not> v2d_collide_point_rect (ray_pos ?r) ?b"
    and b2: "\<not> v2d_collide_point_rect (vadd (ray_pos ?r) (ray_dir ?r)) ?b"
    by (simp_all add: v2d_collide_point_rect_def rect_fix_unfold rect_fix_body_def Let_def d_defs v_defs)
  have b3: "raycast_rect_h ?r ?b = Some (Fin 5)"
    by (simp add: raycast_rect_h_def choose_h_def slab_x_def slab_y_def slab_def rect_fix_unfold
        rect_fix_body_def Let_def d_defs v_defs)
  have o: "\<not> (dle (Fin 0) NaN \<and> dle NaN (Fin 1))" "\<not> (dle (Fin 0) (Fin 5) \<and> dle (Fin 5) (Fin 1))"
    by (simp_all add: d_defs)
  from raycast_result_range [of ?r ?c ?b NaN "Fin 5"] c1 c2 z c3 b1 b2 b3 o
  show ?thesis by blast
qed

text \<open>
  Claim C2: \<^verbatim>\<open>v2d_collide_rect_rect\<close> normalises both rects (on each axis with a negative
  extent the origin becomes origin plus extent and the extent is negated) and returns
  false exactly when the max corner of one rect is strictly less than the min corner of
  the other on the x axis or on the y axis, in either order. The unit rects at \<open>(0, 0)\<close>
  and \<open>(1, 0)\<close>, which touch along an edge (the max x of the first equals the min x of the
  second), collide; so do the same two squares when the first or the second is given
  from its opposite corner with the extent \<open>(-1, -1)\<close>.
\<close>

theorem collide_rect_rect_separating_axis:
  "v2d_collide_rect_rect a b =
     (\<not> (dlt (norm_max (v2dvx (rect_pos a)) (v2dvx (rect_dim a)))
              (norm_origin (v2dvx (rect_pos b)) (v2dvx (rect_dim b)))
         \<or> dlt (norm_max (v2dvx (rect_pos b)) (v2dvx (rect_dim b)))
                (norm_origin (v2dvx (rect_pos a)) (v2dvx (rect_dim a)))
         \<or> dlt (norm_max (v2dvy (rect_pos a)) (v2dvy (rect_dim a)))
                (norm_origin (v2dvy (rect_pos b)) (v2dvy (rect_dim b)))
         \<or> dlt (norm_max (v2dvy (rect_pos b)) (v2dvy (rect_dim b)))
                (norm_origin (v2dvy (rect_pos a)) (v2dvy (rect_dim a)))))
   \<and> v2d_collide_rect_rect \<lparr>rect_pos = v2d_vec (Fin 0) (Fin 0), rect_dim = v2d_vec (Fin 1) (Fin 1)\<rparr>
                            \<lparr>rect_pos = v2d_vec (Fin 1) (Fin 0), rect_dim = v2d_vec (Fin 1) (Fin 1)\<rparr>
   \<and> deq (v2dvx (rect_max \<lparr>rect_pos = v2d_vec (Fin 0) (Fin 0), rect_dim = v2d_vec (Fin 1) (Fin 1)\<rparr>))
          (v2dvx (rect_min \<lparr>rect_pos = v2d_vec (Fin 1) (Fin 0), rect_dim = v2d_vec (Fin 1) (Fin 1)\<rparr>))
   \<and> v2d_collide_rect_rect \<lparr>rect_pos = v2d_vec (Fin 1) (Fin 1), rect_dim = v2d_vec (Fin (-1)) (Fin (-1))\<rparr>
                            \<lparr>rect_pos = v2d_vec (Fin 1) (Fin 0), rect_dim = v2d_vec (Fin 1) (Fin 1)\<rparr>
   \<and> v2d_collide_rect_rect \<lparr>rect_pos = v2d_vec (Fin 0) (Fin 0), rect_dim = v2d_vec (Fin 1) (Fin 1)\<rparr>
                            \<lparr>rect_pos = v2d_vec (Fin 2) (Fin 1), rect_dim = v2d_vec (Fin (-1)) (Fin (-1))\<rparr>
   \<and> \<not> v2d_collide_rect_rect \<lparr>rect_pos = v2d_vec (Fin 0) (Fin 0), rect_dim = v2d_vec (Fin 1) (Fin 1)\<rparr>
                            \<lparr>rect_pos = v2d_vec (Fin 3) (Fin 1), rect_dim = v2d_vec (Fin (-1)) (Fin (-1))\<rparr>"
proof -
  have g: "v2d_collide_rect_rect a b =
     (\<not> (dlt (norm_max (v2dvx (rect_pos a)) (v2dvx (rect_dim a)))
              (norm_origin (v2dvx (rect_pos b)) (v2dvx (rect_dim b)))
         \<or> dlt (norm_max (v2dvx (rect_pos b)) (v2dvx (rect_dim b)))
                (norm_origin (v2dvx (rect_pos a)) (v2dvx (rect_dim a)))
         \<or> dlt (norm_max (v2dvy (rect_pos a)) (v2dvy (rect_dim a)))
                (norm_origin (v2dvy (rect_pos b)) (v2dvy (rect_dim b)))
         \<or> dlt (norm_max (v2dvy (rect_pos b)) (v2dvy (rect_dim b)))
                (norm_origin (v2dvy (rect_pos a)) (v2dvy (rect_dim a)))))"
    by (simp only: collide_rect_rect_corners rect_min_norm rect_max_norm)
  have e: "v2d_collide_rect_rect \<lparr>rect_pos = v2d_vec (Fin 0) (Fin 0), rect_dim = v2d_vec (Fin 1) (Fin 1)\<rparr>
                            \<lparr>rect_pos = v2d_vec (Fin 1) (Fin 0), rect_dim = v2d_vec (Fin 1) (Fin 1)\<rparr>"
    by (simp add: v2d_collide_rect_rect_def rect_fix_unfold rect_fix_body_def Let_def d_defs v_defs)
  have t: "deq (v2dvx (rect_max \<lparr>rect_pos = v2d_vec (Fin 0) (Fin 0), rect_dim = v2d_vec (Fin 1) (Fin 1)\<rparr>))
          (v2dvx (rect_min \<lparr>rect_pos = v2d_vec (Fin 1) (Fin 0), rect_dim = v2d_vec (Fin 1) (Fin 1)\<rparr>))"
    by (simp add: rect_min_def rect_max_def rect_fix_unfold rect_fix_body_def Let_def d_defs v_defs)
  have n1: "v2d_collide_rect_rect \<lparr>rect_pos = v2d_vec (Fin 1) (Fin 1), rect_dim = v2d_vec (Fin (-1)) (Fin (-1))\<rparr>
                            \<lparr>rect_pos = v2d_vec (Fin 1) (Fin 0), rect_dim = v2d_vec (Fin 1) (Fin 1)\<rparr>"
    by (simp add: v2d_collide_rect_rect_def rect_fix_unfold rect_fix_body_def Let_def d_defs v_defs)
  have n2: "v2d_collide_rect_rect \<lparr>rect_pos = v2d_vec (Fin 0) (Fin 0), rect_dim = v2d_vec (Fin 1) (Fin 1)\<rparr>
                            \<lparr>rect_pos = v2d_vec (Fin 2) (Fin 1), rect_dim = v2d_vec (Fin (-1)) (Fin (-1))\<rparr>"
    by (simp add: v2d_collide_rect_rect_def rect_fix_unfold rect_fix_body_def Let_def d_defs v_defs)
  have n3: "\<not> v2d_collide_rect_rect \<lparr>rect_pos = v2d_vec (Fin 0) (Fin 0), rect_dim = v2d_vec (Fin 1) (Fin 1)\<rparr>
                            \<lparr>rect_pos = v2d_vec (Fin 3) (Fin 1), rect_dim = v2d_vec (Fin (-1)) (Fin (-1))\<rparr>"
    by (simp add: v2d_collide_rect_rect_def rect_fix_unfold rect_fix_body_def Let_def d_defs v_defs)
  from g e t n1 n2 n3 show ?thesis by blast
qed



text \<open>
  Claim C4: the ray from \<open>(-5, 1/2)\<close> along \<open>(10, 0)\<close> against the rect with origin \<open>(0, 0)\<close>
  and extent \<open>(1, 1)\<close> gives exactly \<open>1/2\<close>; the ray from \<open>(-5, 5)\<close> along \<open>(10, 0)\<close> against
  the same rect gives positive infinity.
\<close>

theorem raycast_rect_examples:
  "v2d_raycast_rect \<lparr>ray_pos = v2d_vec (Fin (-5)) (Fin (1/2)), ray_dir = v2d_vec (Fin 10) (Fin 0)\<rparr>
                    \<lparr>rect_pos = v2d_vec (Fin 0) (Fin 0), rect_dim = v2d_vec (Fin 1) (Fin 1)\<rparr> = Fin (1/2)
   \<and> v2d_raycast_rect \<lparr>ray_pos = v2d_vec (Fin (-5)) (Fin 5), ray_dir = v2d_vec (Fin 10) (Fin 0)\<rparr>
                      \<lparr>rect_pos = v2d_vec (Fin 0) (Fin 0), rect_dim = v2d_vec (Fin 1) (Fin 1)\<rparr> = INFINITY"
  by (simp add: v2d_raycast_rect_def v2d_collide_point_rect_def raycast_rect_h_def choose_h_def
      slab_x_def slab_y_def slab_def in_ray_def rect_fix_unfold rect_fix_body_def Let_def d_defs v_defs)

text \<open>
  Claim C5: for a ray whose origin is not inside the shape and whose direction is not
  zero, if the endpoint (origin + direction) is inside the shape (the exclusive test for
  a circle, the inclusive test for a rect), both raycasts return 0, whatever the first
  point of contact along the segment.
\<close>

theorem raycast_endpoint_shortcut:
  "(\<not> v2d_collide_point_circle (ray_pos r) c \<and> \<not> vec_is_zero (ray_dir r)
      \<and> v2d_collide_point_circle (vadd (ray_pos r) (ray_dir r)) c
     \<longrightarrow> v2d_raycast_circle r c = Fin 0)
   \<and> (\<not> v2d_collide_point_rect (ray_pos r) b \<and> \<not> vec_is_zero (ray_dir r)
      \<and> v2d_collide_point_rect (vadd (ray_pos r) (ray_dir r)) b
     \<longrightarrow> v2d_raycast_rect r b = Fin 0)"
  by (simp add: v2d_raycast_circle_def v2d_raycast_rect_def)

text \<open>The ray from \<open>(-5, 1/2)\<close> along \<open>(11/2, 0)\<close> ends at \<open>(1/2, 1/2)\<close>, inside the unit
  rect and inside the circle of radius 1 around that point. Both raycasts return 0,
  where the slabs of the rect give the entry at \<open>\<lambda> = 10/11\<close>.\<close>

theorem raycast_endpoint_shortcut_witness:
  "\<not> v2d_collide_point_circle
        (ray_pos \<lparr>ray_pos = v2d_vec (Fin (-5)) (Fin (1/2)), ray_dir = v2d_vec (Fin (11/2)) (Fin 0)\<rparr>)
        \<lparr>circle_pos = v2d_vec (Fin (1/2)) (Fin (1/2)), circle_rad = Fin 1\<rparr>
   \<and> \<not> v2d_collide_point_rect
        (ray_pos \<lparr>ray_pos = v2d_vec (Fin (-5)) (Fin (1/2)), ray_dir = v2d_vec (Fin (11/2)) (Fin 0)\<rparr>)
        \<lparr>rect_pos = v2d_vec (Fin 0) (Fin 0), rect_dim = v2d_vec (Fin 1) (Fin 1)\<rparr>
   \<and> \<not> vec_is_zero
        (ray_dir \<lparr>ray_pos = v2d_vec (Fin (-5)) (Fin (1/2)), ray_dir = v2d_vec (Fin (11/2)) (Fin 0)\<rparr>)
   \<and> v2d_collide_point_circle
        (vadd (ray_pos \<lparr>ray_pos = v2d_vec (Fin (-5)) (Fin (1/2)), ray_dir = v2d_vec (Fin (11/2)) (Fin 0)\<rparr>)
              (ray_dir \<lparr>ray_pos = v2d_vec (Fin (-5)) (Fin (1/2)), ray_dir = v2d_vec (Fin (11/2)) (Fin 0)\<rparr>))
        \<lparr>circle_pos = v2d_vec (Fin (1/2)) (Fin (1/2)), circle_rad = Fin 1\<rparr>
   \<and> v2d_collide_point_rect
        (vadd (ray_pos \<lparr>ray_pos = v2d_vec (Fin (-5)) (Fin (1/2)), ray_dir = v2d_vec (Fin (11/2)) (Fin 0)\<rparr>)
              (ray_dir \<lparr>ray_pos = v2d_vec (Fin (-5)) (Fin (1/2)), ray_dir = v2d_vec (Fin (11/2)) (Fin 0)\<rparr>))
        \<lparr>rect_pos = v2d_vec (Fin 0) (Fin 0), rect_dim = v2d_vec (Fin 1) (Fin 1)\<rparr>
   \<and> v2d_raycast_circle \<lparr>ray_pos = v2d_vec (Fin (-5)) (Fin (1/2)), ray_dir = v2d_vec (Fin (11/2)) (Fin 0)\<rparr>
        \<lparr>circle_pos = v2d_vec (Fin (1/2)) (Fin (1/2)), circle_rad = Fin 1\<rparr> = Fin 0
   \<and> v2d_raycast_rect \<lparr>ray_pos = v2d_vec (Fin (-5)) (Fin (1/2)), ray_dir = v2d_vec (Fin (11/2)) (Fin 0)\<rparr>
        \<lparr>rect_pos = v2d_vec (Fin 0) (Fin 0), rect_dim = v2d_vec (Fin 1) (Fin 1)\<rparr> = Fin 0
   \<and> raycast_rect_h \<lparr>ray_pos = v2d_vec (Fin (-5)) (Fin (1/2)), ray_dir = v2d_vec (Fin (11/2)) (Fin 0)\<rparr>
        \<lparr>rect_pos = v2d_vec (Fin 0) (Fin 0), rect_dim = v2d_vec (Fin 1) (Fin 1)\<rparr> = Some (Fin (10/11))"
proof -
  let ?r = "\<lparr>ray_pos = v2d_vec (Fin (-5)) (Fin (1/2)), ray_dir = v2d_vec (Fin (11/2)) (Fin 0)\<rparr>"
  let ?c = "\<lparr>circle_pos = v2d_vec (Fin (1/2)) (Fin (1/2)), circle_rad = Fin 1\<rparr>"
  let ?b = "\<lparr>rect_pos = v2d_vec (Fin 0) (Fin 0), rect_dim = v2d_vec (Fin 1) (Fin 1)\<rparr>"
  have c1: "\<not> v2d_collide_point_circle (ray_pos ?r) ?c"
    and c2: "v2d_collide_point_circle (vadd (ray_pos ?r) (ray_dir ?r)) ?c"
    by (simp_all add: v2d_collide_point_circle_def d_defs v_defs)
  have z: "\<not> vec_is_zero (ray_dir ?r)"
    by (simp add: d_defs v_defs)
  have b1: "\<not> v2d_collide_point_rect (ray_pos ?r) ?b"
    and b2: "v2d_collide_point_rect (vadd (ray_pos ?r) (ray_dir ?r)) ?b"
    by (simp_all add: v2d_collide_point_rect_def rect_fix_unfold rect_fix_body_def Let_def d_defs v_defs)
  have b3: "raycast_rect_h ?r ?b = Some (Fin (10/11))"
    by (simp add: raycast_rect_h_def choose_h_def slab_x_def slab_y_def slab_def rect_fix_unfold
        rect_fix_body_def Let_def d_defs v_defs)
  from raycast_endpoint_shortcut [of ?r ?c ?b] c1 c2 z b1 b2 b3
  show ?thesis by blast
qed

text \<open>
  Claim C6: for a ray whose direction is zero, \<^verbatim>\<open>v2d_raycast_circle\<close> returns positive
  infinity when the origin is outside the circle and 0 when the origin is inside: the
  test of the origin comes before the test of the direction.
\<close>

theorem raycast_circle_zero_direction:
  "vec_is_zero (ray_dir r) \<Longrightarrow>
     v2d_raycast_circle r c = (if v2d_collide_point_circle (ray_pos r) c then Fin 0 else INFINITY)"
  by (simp add: v2d_raycast_circle_def)

text \<open>The ray at \<open>(3, 0)\<close> with direction \<open>(0, -0)\<close>: outside the unit circle at the origin,
  inside the unit circle around \<open>(3, 1/2)\<close>.\<close>

theorem raycast_circle_zero_direction_witness:
  "vec_is_zero (ray_dir \<lparr>ray_pos = v2d_vec (Fin 3) (Fin 0), ray_dir = v2d_vec (Fin 0) NZero\<rparr>)
   \<and> v2d_raycast_circle \<lparr>ray_pos = v2d_vec (Fin 3) (Fin 0), ray_dir = v2d_vec (Fin 0) NZero\<rparr>
        \<lparr>circle_pos = v2d_vec (Fin 0) (Fin 0), circle_rad = Fin 1\<rparr> = INFINITY
   \<and> v2d_raycast_circle \<lparr>ray_pos = v2d_vec (Fin 3) (Fin 0), ray_dir = v2d_vec (Fin 0) NZero\<rparr>
        \<lparr>circle_pos = v2d_vec (Fin 3) (Fin (1/2)), circle_rad = Fin 1\<rparr> = Fin 0"
proof -
  let ?r = "\<lparr>ray_pos = v2d_vec (Fin 3) (Fin 0), ray_dir = v2d_vec (Fin 0) NZero\<rparr>"
  have z: "vec_is_zero (ray_dir ?r)"
    by (simp add: d_defs v_defs)
  have o: "\<not> v2d_collide_point_circle (ray_pos ?r) \<lparr>circle_pos = v2d_vec (Fin 0) (Fin 0), circle_rad = Fin 1\<rparr>"
    and i: "v2d_collide_point_circle (ray_pos ?r) \<lparr>circle_pos = v2d_vec (Fin 3) (Fin (1/2)), circle_rad = Fin 1\<rparr>"
    by (simp_all add: v2d_collide_point_circle_def d_defs v_defs)
  from raycast_circle_zero_direction [OF z, of "\<lparr>circle_pos = v2d_vec (Fin 0) (Fin 0), circle_rad = Fin 1\<rparr>"]
       raycast_circle_zero_direction [OF z, of "\<lparr>circle_pos = v2d_vec (Fin 3) (Fin (1/2)), circle_rad = Fin 1\<rparr>"]
       z o i
  show ?thesis by simp
qed

text \<open>
  Claim C7: normalising a rect twice is normalising it once. On an axis whose extent is
  negative the new extent is the old one negated and the new origin is the old origin
  plus the old extent; an axis whose extent is not negative is left as it is, whatever
  the other axis. The rect with origin \<open>(5, 5)\<close> and extent \<open>(-2, 3)\<close> becomes the rect
  with origin \<open>(3, 5)\<close> and extent \<open>(2, 3)\<close>.
\<close>

theorem rect_fix_idempotent_sign_correcting:
  "rect_fix (rect_fix r) = rect_fix r
   \<and> (dlt (v2dvx (rect_dim r)) (Fin 0) \<longrightarrow>
        v2dvx (rect_dim (rect_fix r)) = dneg (v2dvx (rect_dim r))
        \<and> v2dvx (rect_pos (rect_fix r)) = dadd (v2dvx (rect_pos r)) (v2dvx (rect_dim r)))
   \<and> (\<not> dlt (v2dvx (rect_dim r)) (Fin 0) \<longrightarrow>
        v2dvx (rect_dim (rect_fix r)) = v2dvx (rect_dim r)
        \<and> v2dvx (rect_pos (rect_fix r)) = v2dvx (rect_pos r))
   \<and> (dlt (v2dvy (rect_dim r)) (Fin 0) \<longrightarrow>
        v2dvy (rect_dim (rect_fix r)) = dneg (v2dvy (rect_dim r))
        \<and> v2dvy (rect_pos (rect_fix r)) = dadd (v2dvy (rect_pos r)) (v2dvy (rect_dim r)))
   \<and> (\<not> dlt (v2dvy (rect_dim r)) (Fin 0) \<longrightarrow>
        v2dvy (rect_dim (rect_fix r)) = v2dvy (rect_dim r)
        \<and> v2dvy (rect_pos (rect_fix r)) = v2dvy (rect_pos r))
   \<and> rect_fix \<lparr>rect_pos = v2d_vec (Fin 5) (Fin 5), rect_dim = v2d_vec (Fin (-2)) (Fin 3)\<rparr>
        = \<lparr>rect_pos = v2d_vec (Fin 3) (Fin 5), rect_dim = v2d_vec (Fin 2) (Fin 3)\<rparr>"
proof -
  have e: "rect_fix \<lparr>rect_pos = v2d_vec (Fin 5) (Fin 5), rect_dim = v2d_vec (Fin (-2)) (Fin 3)\<rparr>
        = \<lparr>rect_pos = v2d_vec (Fin 3) (Fin 5), rect_dim = v2d_vec (Fin 2) (Fin 3)\<rparr>"
    by (simp add: rect_fix_unfold rect_fix_body_def Let_def d_defs v_defs)
  show ?thesis
    using e by (simp add: rect_fix_idem rect_fix_x rect_fix_y)
qed

text \<open>The rects with origin \<open>(5, 5)\<close> and the extents \<open>(-2, 3)\<close> and \<open>(3, -2)\<close>: each is
  corrected on its negative axis and kept on the other.\<close>

theorem rect_fix_idempotent_sign_correcting_witness:
  "dlt (v2dvx (rect_dim \<lparr>rect_pos = v2d_vec (Fin 5) (Fin 5), rect_dim = v2d_vec (Fin (-2)) (Fin 3)\<rparr>)) (Fin 0)
   \<and> \<not> dlt (v2dvy (rect_dim \<lparr>rect_pos = v2d_vec (Fin 5) (Fin 5), rect_dim = v2d_vec (Fin (-2)) (Fin 3)\<rparr>)) (Fin 0)
   \<and> v2dvx (rect_dim (rect_fix \<lparr>rect_pos = v2d_vec (Fin 5) (Fin 5), rect_dim = v2d_vec (Fin (-2)) (Fin 3)\<rparr>)) = Fin 2
   \<and> v2dvx (rect_pos (rect_fix \<lparr>rect_pos = v2d_vec (Fin 5) (Fin 5), rect_dim = v2d_vec (Fin (-2)) (Fin 3)\<rparr>)) = Fin 3
   \<and> v2dvy (rect_dim (rect_fix \<lparr>rect_pos = v2d_vec (Fin 5) (Fin 5), rect_dim = v2d_vec (Fin (-2)) (Fin 3)\<rparr>)) = Fin 3
   \<and> v2dvy (rect_pos (rect_fix \<lparr>rect_pos = v2d_vec (Fin 5) (Fin 5), rect_dim = v2d_vec (Fin (-2)) (Fin 3)\<rparr>)) = Fin 5
   \<and> \<not> dlt (v2dvx (rect_dim \<lparr>rect_pos = v2d_vec (Fin 5) (Fin 5), rect_dim = v2d_vec (Fin 3) (Fin (-2))\<rparr>)) (Fin 0)
   \<and> dlt (v2dvy (rect_dim \<lparr>rect_pos = v2d_vec (Fin 5) (Fin 5), rect_dim = v2d_vec (Fin 3) (Fin (-2))\<rparr>)) (Fin 0)
   \<and> v2dvx (rect_dim (rect_fix \<lparr>rect_pos = v2d_vec (Fin 5) (Fin 5), rect_dim = v2d_vec (Fin 3) (Fin (-2))\<rparr>)) = Fin 3
   \<and> v2dvx (rect_pos (rect_fix \<lparr>rect_pos = v2d_vec (Fin 5) (Fin 5), rect_dim = v2d_vec (Fin 3) (Fin (-2))\<rparr>)) = Fin 5
   \<and> v2dvy (rect_dim (rect_fix \<lparr>rect_pos = v2d_vec (Fin 5) (Fin 5), rect_dim = v2d_vec (Fin 3) (Fin (-2))\<rparr>)) = Fin 2
   \<and> v2dvy (rect_pos (rect_fix \<lparr>rect_pos = v2d_vec (Fin 5) (Fin 5), rect_dim = v2d_vec (Fin 3) (Fin (-2))\<rparr>)) = Fin 3"
  using rect_fix_idempotent_sign_correcting
          [of "\<lparr>rect_pos = v2d_vec (Fin 5) (Fin 5), rect_dim = v2d_vec (Fin (-2)) (Fin 3)\<rparr>"]
        rect_fix_idempotent_sign_correcting
          [of "\<lparr>rect_pos = v2d_vec (Fin 5) (Fin 5), rect_dim = v2d_vec (Fin 3) (Fin (-2))\<rparr>"]
  by (simp add: d_defs v_defs)

text \<open>
  Claim C8, as amended: for every ray and every rect, when the direction is zero on
  exactly one axis and the origin of the ray is strictly greater than the min bound and
  strictly less than the max bound of the normalised rect on that axis (the bounds as
  the code computes them), the division yields infinities of opposite sign in the two
  bounds of the slab of that axis, and the min/max comparisons absorb them: the lesser is
  the negative and the greater the positive infinity, so the axis imposes no constraint,
  and, unless both bounds of the slab of the other axis are NaN, the candidate of
  \<^verbatim>\<open>v2d_raycast_rect\<close> is the one that the slab of the other axis gives alone. For every
  ray and every rect the result is positive infinity or a finite \<open>\<lambda>\<close> with \<open>0 \<le> \<lambda> \<le> 1\<close>,
  never a NaN.
\<close>

theorem raycast_rect_zero_axis:
  "(deq (v2dvx (ray_dir r)) (Fin 0) \<and> \<not> deq (v2dvy (ray_dir r)) (Fin 0)
      \<and> dlt (norm_origin (v2dvx (rect_pos b)) (v2dvx (rect_dim b))) (v2dvx (ray_pos r))
      \<and> dlt (v2dvx (ray_pos r)) (norm_max (v2dvx (rect_pos b)) (v2dvx (rect_dim b)))
    \<longrightarrow> slab_unconstrained (slab_x r b)
        \<and> (\<not> (isnan (fst (slab_y r b)) \<and> isnan (snd (slab_y r b)))
           \<longrightarrow> raycast_rect_h r b =
                 choose_h (fmin (fst (slab_y r b)) (snd (slab_y r b)))
                          (fmax (fst (slab_y r b)) (snd (slab_y r b)))))
   \<and> (deq (v2dvy (ray_dir r)) (Fin 0) \<and> \<not> deq (v2dvx (ray_dir r)) (Fin 0)
      \<and> dlt (norm_origin (v2dvy (rect_pos b)) (v2dvy (rect_dim b))) (v2dvy (ray_pos r))
      \<and> dlt (v2dvy (ray_pos r)) (norm_max (v2dvy (rect_pos b)) (v2dvy (rect_dim b)))
    \<longrightarrow> slab_unconstrained (slab_y r b)
        \<and> (\<not> (isnan (fst (slab_x r b)) \<and> isnan (snd (slab_x r b)))
           \<longrightarrow> raycast_rect_h r b =
                 choose_h (fmin (fst (slab_x r b)) (snd (slab_x r b)))
                          (fmax (fst (slab_x r b)) (snd (slab_x r b)))))
   \<and> (v2d_raycast_rect r b = INFINITY \<or>
       (isfin (v2d_raycast_rect r b) \<and> 0 \<le> val (v2d_raycast_rect r b)
        \<and> val (v2d_raycast_rect r b) \<le> 1))"
proof (intro conjI impI)
  assume a: "deq (v2dvx (ray_dir r)) (Fin 0) \<and> \<not> deq (v2dvy (ray_dir r)) (Fin 0)
      \<and> dlt (norm_origin (v2dvx (rect_pos b)) (v2dvx (rect_dim b))) (v2dvx (ray_pos r))
      \<and> dlt (v2dvx (ray_pos r)) (norm_max (v2dvx (rect_pos b)) (v2dvx (rect_dim b)))"
  then have sx: "slab_x r b =
      (sinf (\<not> signbit (v2dvx (ray_dir r))), sinf (signbit (v2dvx (ray_dir r))))"
    by (simp add: slab_x_corners slab_zero_between)
  show "slab_unconstrained (slab_x r b)"
    by (simp only: sx slab_unconstrained_sinf)
  assume "\<not> (isnan (fst (slab_y r b)) \<and> isnan (snd (slab_y r b)))"
  with sx show "raycast_rect_h r b =
      choose_h (fmin (fst (slab_y r b)) (snd (slab_y r b))) (fmax (fst (slab_y r b)) (snd (slab_y r b)))"
    by (rule raycast_rect_h_free_x)
next
  assume a: "deq (v2dvy (ray_dir r)) (Fin 0) \<and> \<not> deq (v2dvx (ray_dir r)) (Fin 0)
      \<and> dlt (norm_origin (v2dvy (rect_pos b)) (v2dvy (rect_dim b))) (v2dvy (ray_pos r))
      \<and> dlt (v2dvy (ray_pos r)) (norm_max (v2dvy (rect_pos b)) (v2dvy (rect_dim b)))"
  then have sy: "slab_y r b =
      (sinf (\<not> signbit (v2dvy (ray_dir r))), sinf (signbit (v2dvy (ray_dir r))))"
    by (simp add: slab_y_corners slab_zero_between)
  show "slab_unconstrained (slab_y r b)"
    by (simp only: sy slab_unconstrained_sinf)
  assume "\<not> (isnan (fst (slab_x r b)) \<and> isnan (snd (slab_x r b)))"
  with sy show "raycast_rect_h r b =
      choose_h (fmin (fst (slab_x r b)) (snd (slab_x r b))) (fmax (fst (slab_x r b)) (snd (slab_x r b)))"
    by (rule raycast_rect_h_free_y)
next
  show "v2d_raycast_rect r b = INFINITY \<or>
       (isfin (v2d_raycast_rect r b) \<and> 0 \<le> val (v2d_raycast_rect r b)
        \<and> val (v2d_raycast_rect r b) \<le> 1)"
    by (rule v2d_raycast_rect_range)
qed

text \<open>The ray from \<open>(1/2, -4)\<close> along \<open>(0, 8)\<close> against the rect with origin \<open>(1, 1)\<close> and
  extent \<open>(-1, -1)\<close>, and the ray from \<open>(-4, 1/2)\<close> along \<open>(8, -0)\<close> against the unit rect:
  the axis of the zero constrains nothing and the hit is at \<open>\<lambda> = 1/2\<close>.\<close>

theorem raycast_rect_zero_axis_witness:
  "deq (v2dvx (ray_dir \<lparr>ray_pos = v2d_vec (Fin (1/2)) (Fin (-4)), ray_dir = v2d_vec (Fin 0) (Fin 8)\<rparr>)) (Fin 0) \<and> \<not> deq (v2dvy (ray_dir \<lparr>ray_pos = v2d_vec (Fin (1/2)) (Fin (-4)), ray_dir = v2d_vec (Fin 0) (Fin 8)\<rparr>)) (Fin 0)
   \<and> dlt (norm_origin (Fin 1) (Fin (-1))) (v2dvx (ray_pos \<lparr>ray_pos = v2d_vec (Fin (1/2)) (Fin (-4)), ray_dir = v2d_vec (Fin 0) (Fin 8)\<rparr>))
   \<and> dlt (v2dvx (ray_pos \<lparr>ray_pos = v2d_vec (Fin (1/2)) (Fin (-4)), ray_dir = v2d_vec (Fin 0) (Fin 8)\<rparr>)) (norm_max (Fin 1) (Fin (-1)))
   \<and> slab_y \<lparr>ray_pos = v2d_vec (Fin (1/2)) (Fin (-4)), ray_dir = v2d_vec (Fin 0) (Fin 8)\<rparr> \<lparr>rect_pos = v2d_vec (Fin 1) (Fin 1), rect_dim = v2d_vec (Fin (-1)) (Fin (-1))\<rparr> = (Fin (1/2), Fin (5/8))
   \<and> slab_unconstrained (slab_x \<lparr>ray_pos = v2d_vec (Fin (1/2)) (Fin (-4)), ray_dir = v2d_vec (Fin 0) (Fin 8)\<rparr> \<lparr>rect_pos = v2d_vec (Fin 1) (Fin 1), rect_dim = v2d_vec (Fin (-1)) (Fin (-1))\<rparr>)
   \<and> raycast_rect_h \<lparr>ray_pos = v2d_vec (Fin (1/2)) (Fin (-4)), ray_dir = v2d_vec (Fin 0) (Fin 8)\<rparr> \<lparr>rect_pos = v2d_vec (Fin 1) (Fin 1), rect_dim = v2d_vec (Fin (-1)) (Fin (-1))\<rparr> = Some (Fin (1/2))
   \<and> deq (v2dvy (ray_dir \<lparr>ray_pos = v2d_vec (Fin (-4)) (Fin (1/2)), ray_dir = v2d_vec (Fin 8) NZero\<rparr>)) (Fin 0) \<and> \<not> deq (v2dvx (ray_dir \<lparr>ray_pos = v2d_vec (Fin (-4)) (Fin (1/2)), ray_dir = v2d_vec (Fin 8) NZero\<rparr>)) (Fin 0)
   \<and> dlt (norm_origin (Fin 0) (Fin 1)) (v2dvy (ray_pos \<lparr>ray_pos = v2d_vec (Fin (-4)) (Fin (1/2)), ray_dir = v2d_vec (Fin 8) NZero\<rparr>))
   \<and> dlt (v2dvy (ray_pos \<lparr>ray_pos = v2d_vec (Fin (-4)) (Fin (1/2)), ray_dir = v2d_vec (Fin 8) NZero\<rparr>)) (norm_max (Fin 0) (Fin 1))
   \<and> slab_x \<lparr>ray_pos = v2d_vec (Fin (-4)) (Fin (1/2)), ray_dir = v2d_vec (Fin 8) NZero\<rparr> \<lparr>rect_pos = v2d_vec (Fin 0) (Fin 0), rect_dim = v2d_vec (Fin 1) (Fin 1)\<rparr> = (Fin (1/2), Fin (5/8))
   \<and> slab_unconstrained (slab_y \<lparr>ray_pos = v2d_vec (Fin (-4)) (Fin (1/2)), ray_dir = v2d_vec (Fin 8) NZero\<rparr> \<lparr>rect_pos = v2d_vec (Fin 0) (Fin 0), rect_dim = v2d_vec (Fin 1) (Fin 1)\<rparr>)
   \<and> raycast_rect_h \<lparr>ray_pos = v2d_vec (Fin (-4)) (Fin (1/2)), ray_dir = v2d_vec (Fin 8) NZero\<rparr> \<lparr>rect_pos = v2d_vec (Fin 0) (Fin 0), rect_dim = v2d_vec (Fin 1) (Fin 1)\<rparr> = Some (Fin (1/2))"
proof -
  let ?r1 = "\<lparr>ray_pos = v2d_vec (Fin (1/2)) (Fin (-4)), ray_dir = v2d_vec (Fin 0) (Fin 8)\<rparr>"
  let ?r2 = "\<lparr>ray_pos = v2d_vec (Fin (-4)) (Fin (1/2)), ray_dir = v2d_vec (Fin 8) NZero\<rparr>"
  let ?b1 = "\<lparr>rect_pos = v2d_vec (Fin 1) (Fin 1), rect_dim = v2d_vec (Fin (-1)) (Fin (-1))\<rparr>"
  let ?b2 = "\<lparr>rect_pos = v2d_vec (Fin 0) (Fin 0), rect_dim = v2d_vec (Fin 1) (Fin 1)\<rparr>"
  have n: "norm_origin (Fin 1) (Fin (-1)) = Fin 0" "norm_max (Fin 1) (Fin (-1)) = Fin 1"
    "norm_origin (Fin 0) (Fin 1) = Fin 0" "norm_max (Fin 0) (Fin 1) = Fin 1"
    by (simp_all add: norm_max_def norm_origin_def norm_extent_def d_defs)
  have h1: "deq (v2dvx (ray_dir ?r1)) (Fin 0) \<and> \<not> deq (v2dvy (ray_dir ?r1)) (Fin 0)
      \<and> dlt (norm_origin (Fin 1) (Fin (-1))) (v2dvx (ray_pos ?r1))
      \<and> dlt (v2dvx (ray_pos ?r1)) (norm_max (Fin 1) (Fin (-1)))"
    by (simp add: n) (simp add: d_defs v_defs)
  have h2: "deq (v2dvy (ray_dir ?r2)) (Fin 0) \<and> \<not> deq (v2dvx (ray_dir ?r2)) (Fin 0)
      \<and> dlt (norm_origin (Fin 0) (Fin 1)) (v2dvy (ray_pos ?r2))
      \<and> dlt (v2dvy (ray_pos ?r2)) (norm_max (Fin 0) (Fin 1))"
    by (simp add: n) (simp add: d_defs v_defs)
  have sy: "slab_y ?r1 ?b1 = (Fin (1/2), Fin (5/8))"
    by (simp add: slab_y_corners) (simp add: v2d_vec_def n slab_def Let_def d_defs)
  have sx: "slab_x ?r2 ?b2 = (Fin (1/2), Fin (5/8))"
    by (simp add: slab_x_corners) (simp add: v2d_vec_def n slab_def Let_def d_defs)
  have c: "choose_h (fmin (Fin (1/2)) (Fin (5/8))) (fmax (Fin (1/2)) (Fin (5/8))) = Some (Fin (1/2))"
    by (simp add: choose_h_def d_defs)
  from raycast_rect_zero_axis [of ?r1 ?b1] raycast_rect_zero_axis [of ?r2 ?b2] h1 h2 sy sx c
  show ?thesis by (simp add: v2d_vec_def)
qed

text \<open>
  Claim C8, as the specification states it, fails at the ray from \<open>(5, -5)\<close> along
  \<open>(0, 10)\<close> against the unit rect: the direction is zero on the x axis only, both bounds
  of the x slab are the negative infinity, so the axis does constrain the interval: the
  y slab alone gives \<open>\<lambda> = 1/2\<close>, and the raycast returns positive infinity.
\<close>

theorem raycast_rect_zero_axis_counterexample:
  "deq (v2dvx (ray_dir \<lparr>ray_pos = v2d_vec (Fin 5) (Fin (-5)), ray_dir = v2d_vec (Fin 0) (Fin 10)\<rparr>)) (Fin 0) \<and> \<not> deq (v2dvy (ray_dir \<lparr>ray_pos = v2d_vec (Fin 5) (Fin (-5)), ray_dir = v2d_vec (Fin 0) (Fin 10)\<rparr>)) (Fin 0)
   \<and> slab_x \<lparr>ray_pos = v2d_vec (Fin 5) (Fin (-5)), ray_dir = v2d_vec (Fin 0) (Fin 10)\<rparr> \<lparr>rect_pos = v2d_vec (Fin 0) (Fin 0), rect_dim = v2d_vec (Fin 1) (Fin 1)\<rparr> = (NInf, NInf)
   \<and> \<not> slab_unconstrained (slab_x \<lparr>ray_pos = v2d_vec (Fin 5) (Fin (-5)), ray_dir = v2d_vec (Fin 0) (Fin 10)\<rparr> \<lparr>rect_pos = v2d_vec (Fin 0) (Fin 0), rect_dim = v2d_vec (Fin 1) (Fin 1)\<rparr>)
   \<and> choose_h (fmin (fst (slab_y \<lparr>ray_pos = v2d_vec (Fin 5) (Fin (-5)), ray_dir = v2d_vec (Fin 0) (Fin 10)\<rparr> \<lparr>rect_pos = v2d_vec (Fin 0) (Fin 0), rect_dim = v2d_vec (Fin 1) (Fin 1)\<rparr>)) (snd (slab_y \<lparr>ray_pos = v2d_vec (Fin 5) (Fin (-5)), ray_dir = v2d_vec (Fin 0) (Fin 10)\<rparr> \<lparr>rect_pos = v2d_vec (Fin 0) (Fin 0), rect_dim = v2d_vec (Fin 1) (Fin 1)\<rparr>)))
               (fmax (fst (slab_y \<lparr>ray_pos = v2d_vec (Fin 5) (Fin (-5)), ray_dir = v2d_vec (Fin 0) (Fin 10)\<rparr> \<lparr>rect_pos = v2d_vec (Fin 0) (Fin 0), rect_dim = v2d_vec (Fin 1) (Fin 1)\<rparr>)) (snd (slab_y \<lparr>ray_pos = v2d_vec (Fin 5) (Fin (-5)), ray_dir = v2d_vec (Fin 0) (Fin 10)\<rparr> \<lparr>rect_pos = v2d_vec (Fin 0) (Fin 0), rect_dim = v2d_vec (Fin 1) (Fin 1)\<rparr>))) = Some (Fin (1/2))
   \<and> raycast_rect_h \<lparr>ray_pos = v2d_vec (Fin 5) (Fin (-5)), ray_dir = v2d_vec (Fin 0) (Fin 10)\<rparr> \<lparr>rect_pos = v2d_vec (Fin 0) (Fin 0), rect_dim = v2d_vec (Fin 1) (Fin 1)\<rparr> = None
   \<and> v2d_raycast_rect \<lparr>ray_pos = v2d_vec (Fin 5) (Fin (-5)), ray_dir = v2d_vec (Fin 0) (Fin 10)\<rparr> \<lparr>rect_pos = v2d_vec (Fin 0) (Fin 0), rect_dim = v2d_vec (Fin 1) (Fin 1)\<rparr> = INFINITY"
proof -
  let ?r = "\<lparr>ray_pos = v2d_vec (Fin 5) (Fin (-5)), ray_dir = v2d_vec (Fin 0) (Fin 10)\<rparr>"
  let ?b = "\<lparr>rect_pos = v2d_vec (Fin 0) (Fin 0), rect_dim = v2d_vec (Fin 1) (Fin 1)\<rparr>"
  have e: "rect_fix ?b = ?b"
    by (simp add: rect_fix_unfold rect_fix_body_def Let_def d_defs v_defs)
  have d: "deq (v2dvx (ray_dir ?r)) (Fin 0) \<and> \<not> deq (v2dvy (ray_dir ?r)) (Fin 0)"
    by (simp add: d_defs v_defs)
  have sx: "slab_x ?r ?b = (NInf, NInf)"
    by (simp add: slab_x_def e) (simp add: slab_def Let_def d_defs v_defs)
  have sy: "slab_y ?r ?b = (Fin (1/2), Fin (3/5))"
    by (simp add: slab_y_def e) (simp add: slab_def Let_def d_defs v_defs)
  have u: "\<not> slab_unconstrained (slab_x ?r ?b)"
    by (simp add: sx slab_unconstrained_def d_defs)
  have c: "choose_h (fmin (fst (slab_y ?r ?b)) (snd (slab_y ?r ?b)))
               (fmax (fst (slab_y ?r ?b)) (snd (slab_y ?r ?b))) = Some (Fin (1/2))"
    by (simp add: sy choose_h_def d_defs)
  have h: "raycast_rect_h ?r ?b = None"
    by (simp add: raycast_rect_h_slabs sx sy choose_h_def d_defs)
  have p: "\<not> v2d_collide_point_rect (ray_pos ?r) ?b"
    "\<not> v2d_collide_point_rect (vadd (ray_pos ?r) (ray_dir ?r)) ?b"
    by (simp_all add: v2d_collide_point_rect_def e) (simp_all add: Let_def d_defs v_defs)
  have z: "\<not> vec_is_zero (ray_dir ?r)"
    by (simp add: d_defs v_defs)
  have v: "v2d_raycast_rect ?r ?b = INFINITY"
    using p z h by (simp add: v2d_raycast_rect_def)
  from d sx u c h v show ?thesis by blast
qed

text \<open>A ray that runs along an edge of the rect: from \<open>(0, -5)\<close> along \<open>(0, 10)\<close>, on the
  left edge of the unit rect. The first bound of the x slab is zero times infinity, a
  NaN, which \<^verbatim>\<open>fmax\<close> and \<^verbatim>\<open>fmin\<close> drop: the lesser and the greater bound are both the
  positive infinity, and the raycast returns positive infinity.\<close>

lemma raycast_rect_along_edge:
  "slab_x \<lparr>ray_pos = v2d_vec (Fin 0) (Fin (-5)), ray_dir = v2d_vec (Fin 0) (Fin 10)\<rparr> \<lparr>rect_pos = v2d_vec (Fin 0) (Fin 0), rect_dim = v2d_vec (Fin 1) (Fin 1)\<rparr> = (NaN, PInf)
   \<and> fmin (fst (slab_x \<lparr>ray_pos = v2d_vec (Fin 0) (Fin (-5)), ray_dir = v2d_vec (Fin 0) (Fin 10)\<rparr> \<lparr>rect_pos = v2d_vec (Fin 0) (Fin 0), rect_dim = v2d_vec (Fin 1) (Fin 1)\<rparr>)) (snd (slab_x \<lparr>ray_pos = v2d_vec (Fin 0) (Fin (-5)), ray_dir = v2d_vec (Fin 0) (Fin 10)\<rparr> \<lparr>rect_pos = v2d_vec (Fin 0) (Fin 0), rect_dim = v2d_vec (Fin 1) (Fin 1)\<rparr>)) = PInf
   \<and> fmax (fst (slab_x \<lparr>ray_pos = v2d_vec (Fin 0) (Fin (-5)), ray_dir = v2d_vec (Fin 0) (Fin 10)\<rparr> \<lparr>rect_pos = v2d_vec (Fin 0) (Fin 0), rect_dim = v2d_vec (Fin 1) (Fin 1)\<rparr>)) (snd (slab_x \<lparr>ray_pos = v2d_vec (Fin 0) (Fin (-5)), ray_dir = v2d_vec (Fin 0) (Fin 10)\<rparr> \<lparr>rect_pos = v2d_vec (Fin 0) (Fin 0), rect_dim = v2d_vec (Fin 1) (Fin 1)\<rparr>)) = PInf
   \<and> v2d_raycast_rect \<lparr>ray_pos = v2d_vec (Fin 0) (Fin (-5)), ray_dir = v2d_vec (Fin 0) (Fin 10)\<rparr> \<lparr>rect_pos = v2d_vec (Fin 0) (Fin 0), rect_dim = v2d_vec (Fin 1) (Fin 1)\<rparr> = INFINITY"
proof -
  let ?r = "\<lparr>ray_pos = v2d_vec (Fin 0) (Fin (-5)), ray_dir = v2d_vec (Fin 0) (Fin 10)\<rparr>"
  let ?b = "\<lparr>rect_pos = v2d_vec (Fin 0) (Fin 0), rect_dim = v2d_vec (Fin 1) (Fin 1)\<rparr>"
  have e: "rect_fix ?b = ?b"
    by (simp add: rect_fix_unfold rect_fix_body_def Let_def d_defs v_defs)
  have sx: "slab_x ?r ?b = (NaN, PInf)"
    by (simp add: slab_x_def e) (simp add: slab_def Let_def d_defs v_defs)
  have sy: "slab_y ?r ?b = (Fin (1/2), Fin (3/5))"
    by (simp add: slab_y_def e) (simp add: slab_def Let_def d_defs v_defs)
  have m: "fmin (fst (slab_x ?r ?b)) (snd (slab_x ?r ?b)) = PInf"
    "fmax (fst (slab_x ?r ?b)) (snd (slab_x ?r ?b)) = PInf"
    by (simp_all add: sx d_defs)
  have h: "raycast_rect_h ?r ?b = None"
    by (simp add: raycast_rect_h_slabs sx sy choose_h_def d_defs)
  have p: "\<not> v2d_collide_point_rect (ray_pos ?r) ?b"
    "\<not> v2d_collide_point_rect (vadd (ray_pos ?r) (ray_dir ?r)) ?b"
    by (simp_all add: v2d_collide_point_rect_def e) (simp_all add: Let_def d_defs v_defs)
  have z: "\<not> vec_is_zero (ray_dir ?r)"
    by (simp add: d_defs v_defs)
  have v: "v2d_raycast_rect ?r ?b = INFINITY"
    using p z h by (simp add: v2d_raycast_rect_def)
  from sx m v show ?thesis by blast
qed

text \<open>
  Claim C9, as amended: for every circle and every rect such that, on each axis whose
  extent is negative, adding the extent to the origin and subtracting it again gives
  back the origin itself (the sum is formed without loss: no rounding, no infinity),
  \<^verbatim>\<open>v2d_collide_circle_rect\<close> gives the same result on the rect and on the normalised rect:
  the function does not normalise, and the clamp takes its two bounds in either order.
\<close>

theorem collide_circle_rect_fix_invariant:
  assumes "dlt (v2dvx (rect_dim b)) (Fin 0) \<longrightarrow>
             dsub (dadd (v2dvx (rect_pos b)) (v2dvx (rect_dim b))) (v2dvx (rect_dim b)) = v2dvx (rect_pos b)"
    and "dlt (v2dvy (rect_dim b)) (Fin 0) \<longrightarrow>
             dsub (dadd (v2dvy (rect_pos b)) (v2dvy (rect_dim b))) (v2dvy (rect_dim b)) = v2dvy (rect_pos b)"
  shows "v2d_collide_circle_rect a (rect_fix b) = v2d_collide_circle_rect a b"
  by (simp only: circle_rect_gap rect_fix_norm axis_gap_norm [OF assms(1)] axis_gap_norm [OF assms(2)])

text \<open>The circles of radius 1 and of radius 2 around \<open>(2, 1/2)\<close> against the rect with origin
  \<open>(1, 1)\<close> and extent \<open>(-1, -1)\<close>, where \<open>(1 + (-1)) - (-1)\<close> is 1: the nearest point of the
  rect is at distance 1, so the first circle collides neither with the rect nor with the
  normalised rect, and the second collides with both.\<close>

theorem collide_circle_rect_fix_invariant_witness:
  "dlt (Fin (-1)) (Fin 0) \<and> dsub (dadd (Fin 1) (Fin (-1))) (Fin (-1)) = Fin 1
   \<and> rect_fix \<lparr>rect_pos = v2d_vec (Fin 1) (Fin 1), rect_dim = v2d_vec (Fin (-1)) (Fin (-1))\<rparr> = \<lparr>rect_pos = v2d_vec (Fin 0) (Fin 0), rect_dim = v2d_vec (Fin 1) (Fin 1)\<rparr>
   \<and> \<not> v2d_collide_circle_rect \<lparr>circle_pos = v2d_vec (Fin 2) (Fin (1/2)), circle_rad = Fin 1\<rparr> \<lparr>rect_pos = v2d_vec (Fin 1) (Fin 1), rect_dim = v2d_vec (Fin (-1)) (Fin (-1))\<rparr>
   \<and> \<not> v2d_collide_circle_rect \<lparr>circle_pos = v2d_vec (Fin 2) (Fin (1/2)), circle_rad = Fin 1\<rparr> (rect_fix \<lparr>rect_pos = v2d_vec (Fin 1) (Fin 1), rect_dim = v2d_vec (Fin (-1)) (Fin (-1))\<rparr>)
   \<and> v2d_collide_circle_rect \<lparr>circle_pos = v2d_vec (Fin 2) (Fin (1/2)), circle_rad = Fin 2\<rparr> \<lparr>rect_pos = v2d_vec (Fin 1) (Fin 1), rect_dim = v2d_vec (Fin (-1)) (Fin (-1))\<rparr>
   \<and> v2d_collide_circle_rect \<lparr>circle_pos = v2d_vec (Fin 2) (Fin (1/2)), circle_rad = Fin 2\<rparr> (rect_fix \<lparr>rect_pos = v2d_vec (Fin 1) (Fin 1), rect_dim = v2d_vec (Fin (-1)) (Fin (-1))\<rparr>)"
proof -
  let ?a = "\<lparr>circle_pos = v2d_vec (Fin 2) (Fin (1/2)), circle_rad = Fin 1\<rparr>"
  let ?a' = "\<lparr>circle_pos = v2d_vec (Fin 2) (Fin (1/2)), circle_rad = Fin 2\<rparr>"
  let ?b = "\<lparr>rect_pos = v2d_vec (Fin 1) (Fin 1), rect_dim = v2d_vec (Fin (-1)) (Fin (-1))\<rparr>"
  have d: "dlt (Fin (-1)) (Fin 0)" and t: "dsub (dadd (Fin 1) (Fin (-1))) (Fin (-1)) = Fin 1"
    by (simp_all add: d_defs)
  have hx: "dlt (v2dvx (rect_dim ?b)) (Fin 0) \<longrightarrow>
      dsub (dadd (v2dvx (rect_pos ?b)) (v2dvx (rect_dim ?b))) (v2dvx (rect_dim ?b)) = v2dvx (rect_pos ?b)"
    and hy: "dlt (v2dvy (rect_dim ?b)) (Fin 0) \<longrightarrow>
      dsub (dadd (v2dvy (rect_pos ?b)) (v2dvy (rect_dim ?b))) (v2dvy (rect_dim ?b)) = v2dvy (rect_pos ?b)"
    using t by (simp_all add: v2d_vec_def)
  have e: "rect_fix ?b = \<lparr>rect_pos = v2d_vec (Fin 0) (Fin 0), rect_dim = v2d_vec (Fin 1) (Fin 1)\<rparr>"
    by (simp add: rect_fix_unfold rect_fix_body_def Let_def d_defs v_defs)
  have n: "\<not> v2d_collide_circle_rect ?a ?b" and y: "v2d_collide_circle_rect ?a' ?b"
    by (simp_all add: v2d_collide_circle_rect_def clampv_def clamp_def Let_def d_defs v_defs)
  from collide_circle_rect_fix_invariant [OF hx hy, of ?a]
       collide_circle_rect_fix_invariant [OF hx hy, of ?a'] d t e n y
  show ?thesis by simp
qed

text \<open>
  Claim C9, as the specification states it, fails at the circle of radius \<open>1/2\<close> around
  \<open>(-1, 1/2)\<close> and the rect with origin \<open>(0, 0)\<close> and extent \<open>(-\<infinity>, 1)\<close>. The rect reaches
  from \<open>-\<infinity>\<close> to 0 on the x axis, the clamp leaves the centre where it is, and the circle
  collides. The normalised rect has the origin \<open>(-\<infinity>, 0)\<close> and the extent \<open>(\<infinity>, 1)\<close>: its
  max x is \<open>-\<infinity> + \<infinity>\<close>, a NaN, the clamp gives \<open>-\<infinity>\<close>, and the circle does not collide.
\<close>

theorem collide_circle_rect_fix_invariant_counterexample:
  "rect_fix \<lparr>rect_pos = v2d_vec (Fin 0) (Fin 0), rect_dim = v2d_vec NInf (Fin 1)\<rparr> = \<lparr>rect_pos = v2d_vec NInf (Fin 0), rect_dim = v2d_vec PInf (Fin 1)\<rparr>
   \<and> v2d_collide_circle_rect \<lparr>circle_pos = v2d_vec (Fin (-1)) (Fin (1/2)), circle_rad = Fin (1/2)\<rparr> \<lparr>rect_pos = v2d_vec (Fin 0) (Fin 0), rect_dim = v2d_vec NInf (Fin 1)\<rparr>
   \<and> \<not> v2d_collide_circle_rect \<lparr>circle_pos = v2d_vec (Fin (-1)) (Fin (1/2)), circle_rad = Fin (1/2)\<rparr> (rect_fix \<lparr>rect_pos = v2d_vec (Fin 0) (Fin 0), rect_dim = v2d_vec NInf (Fin 1)\<rparr>)"
proof -
  have e: "rect_fix \<lparr>rect_pos = v2d_vec (Fin 0) (Fin 0), rect_dim = v2d_vec NInf (Fin 1)\<rparr> = \<lparr>rect_pos = v2d_vec NInf (Fin 0), rect_dim = v2d_vec PInf (Fin 1)\<rparr>"
    by (simp add: rect_fix_unfold rect_fix_body_def Let_def d_defs v_defs)
  have y: "v2d_collide_circle_rect \<lparr>circle_pos = v2d_vec (Fin (-1)) (Fin (1/2)), circle_rad = Fin (1/2)\<rparr> \<lparr>rect_pos = v2d_vec (Fin 0) (Fin 0), rect_dim = v2d_vec NInf (Fin 1)\<rparr>"
    by (simp add: v2d_collide_circle_rect_def clampv_def clamp_def Let_def d_defs v_defs)
  have n: "\<not> v2d_collide_circle_rect \<lparr>circle_pos = v2d_vec (Fin (-1)) (Fin (1/2)), circle_rad = Fin (1/2)\<rparr> \<lparr>rect_pos = v2d_vec NInf (Fin 0), rect_dim = v2d_vec PInf (Fin 1)\<rparr>"
    by (simp add: v2d_collide_circle_rect_def clampv_def clamp_def Let_def d_defs v_defs)
  from e y n show ?thesis by simp
qed

text \<open>
  Claim C10: negating the radius of the circle changes neither the result of
  \<^verbatim>\<open>v2d_collide_point_circle\<close> nor the result of \<^verbatim>\<open>v2d_collide_circle_rect\<close>: the radius is
  read through its square only. A circle of radius \<open>-1\<close> contains its centre, so it does
  not behave as an empty shape.
\<close>

theorem collide_negative_radius:
  "v2d_collide_point_circle p (c\<lparr>circle_rad := dneg (circle_rad c)\<rparr>) = v2d_collide_point_circle p c
   \<and> v2d_collide_circle_rect (c\<lparr>circle_rad := dneg (circle_rad c)\<rparr>) b = v2d_collide_circle_rect c b
   \<and> v2d_collide_point_circle (v2d_vec (Fin 0) (Fin 0))
        \<lparr>circle_pos = v2d_vec (Fin 0) (Fin 0), circle_rad = Fin (-1)\<rparr>"
  by (simp add: v2d_collide_point_circle_def v2d_collide_circle_rect_def dmul_dneg_dneg Let_def)
    (simp add: d_defs v_defs)

end
